theory Spec2Isabelle
  imports Complex_Main
begin

section \<open>Floats, faults and the common substrate\<close>

text \<open>
  The scripts compute with Python and numpy floats. The model computes with the real and
  complex numbers those floats stand for: rounding is not modelled, except for the
  resonant frequency, whose lines are modelled a second time in doubles. Where the Python
  raises, the model returns the exception. Where a float leaves the finite reals without
  raising (numpy answers \<open>nan\<close> or \<open>inf\<close> with a warning, Python answers a complex
  number for a negative base under a fractional exponent), the model stops with
  \<open>NotFinite\<close>: it describes only the runs whose every float is a finite real.
\<close>

datatype fault = ZeroDivisionError | IndexError | ValueError | NotFinite

text \<open>The attributes every class sets in its constructor: \<open>self.er\<close>, \<open>self.h\<close>,
  \<open>self.tand\<close> and \<open>self.c = constants.c\<close>.\<close>

record substrate =
  er :: real
  h :: real
  tand :: real
  c :: real

definition constants_c :: real where
  "constants_c = 299792458"

text \<open>\<open>np.linspace(start, stop, num)\<close>: \<open>num\<close> evenly spaced samples from \<open>start\<close>
  to \<open>stop\<close>, both included; a negative \<open>num\<close> raises \<open>ValueError\<close>.\<close>

definition linspace :: "real \<times> real \<times> int \<Rightarrow> fault + real list" where
  "linspace r = (case r of (start, stop, num) \<Rightarrow>
     if num < 0 then Inl ValueError
     else if num = 1 then Inr [start]
     else Inr (map (\<lambda>i. start + real i * ((stop - start) / real_of_int (num - 1)))
                [0 ..< nat num]))"

section \<open>microstrip\_analysis.py\<close>

text \<open>\<open>calc_microstrip_params\<close> assigns \<open>self.eff_er\<close> and \<open>self.Z0\<close>; a fresh object
  has neither attribute.\<close>

record MicrostripAnalysis = substrate +
  f :: "real list"
  eff_er :: "real option"
  Z0 :: "real option"

definition MicrostripAnalysis_init ::
    "real \<Rightarrow> real \<Rightarrow> real \<Rightarrow> real \<times> real \<times> int \<Rightarrow> fault + MicrostripAnalysis" where
  "MicrostripAnalysis_init er0 h0 tand0 f_range =
     (case linspace f_range of
        Inl e \<Rightarrow> Inl e
      | Inr fs \<Rightarrow> Inr \<lparr>er = er0, h = h0, tand = tand0, c = constants_c,
                       f = fs, eff_er = None, Z0 = None\<rparr>)"

text \<open>Lines 17 to 20: the effective permittivity, selected by \<open>w/self.h >= 1\<close>.\<close>

definition eff_er_formula :: "real \<Rightarrow> real \<Rightarrow> real \<Rightarrow> real" where
  "eff_er_formula er0 h0 w =
     (if w / h0 \<ge> 1
      then (er0 + 1) / 2 + (er0 - 1) / 2 * (1 + 12 * h0 / w) powr (- 0.5)
      else (er0 + 1) / 2 + (er0 - 1) / 2 *
             ((1 + 12 * h0 / w) powr (- 0.5) + 0.04 * (1 - w / h0)\<^sup>2))"

text \<open>Lines 23 to 26: the characteristic impedance from \<open>self.eff_er\<close>.\<close>

definition Z0_formula :: "real \<Rightarrow> real \<Rightarrow> real \<Rightarrow> real" where
  "Z0_formula e h0 w =
     (if w / h0 \<ge> 1
      then 120 * pi / (sqrt e * (w / h0 + 1.393 + 0.667 * ln (w / h0 + 1.444)))
      else 60 / sqrt e * ln (8 * h0 / w + w / (4 * h0)))"

text \<open>
  \<open>calc_microstrip_params(self, w)\<close>. The faults, in the order the Python meets them:
  \<open>w/self.h\<close> raises for \<open>h = 0\<close>; \<open>12*self.h/w\<close> raises for \<open>w = 0\<close>;
  \<open>(...)**(-0.5)\<close> raises for a zero base and is complex for a negative one;
  \<open>np.sqrt\<close> of a negative \<open>eff_er\<close> is \<open>nan\<close>, a zero one makes the division
  infinite; \<open>np.log\<close> of a non-positive argument is \<open>nan\<close> or \<open>-inf\<close>.
  The result is the returned pair \<open>(Z0, eff_er)\<close> and the object with both attributes
  assigned.
\<close>

definition calc_microstrip_params ::
    "MicrostripAnalysis \<Rightarrow> real \<Rightarrow> fault + ((real \<times> real) \<times> MicrostripAnalysis)" where
  "calc_microstrip_params self w =
     (if h self = 0 then Inl ZeroDivisionError
      else if w = 0 then Inl ZeroDivisionError
      else if 1 + 12 * h self / w = 0 then Inl ZeroDivisionError
      else if 1 + 12 * h self / w < 0 then Inl NotFinite
      else
        let e = eff_er_formula (er self) (h self) w in
        if e \<le> 0 then Inl NotFinite
        else if w / h self \<ge> 1 \<and> w / h self + 1.444 \<le> 0 then Inl NotFinite
        else if \<not> w / h self \<ge> 1 \<and> 8 * h self / w + w / (4 * h self) \<le> 0
          then Inl NotFinite
        else
          let z = Z0_formula e (h self) w in
          Inr ((z, e), self\<lparr>eff_er := Some e, Z0 := Some z\<rparr>))"

text \<open>What a caller sees of a call: the exception or the returned pair.\<close>

definition returned :: "fault + ('a \<times> 's) \<Rightarrow> fault + 'a" where
  "returned r = map_sum id fst r"

text \<open>Lines 35 to 43 of \<open>calc_s_parameters\<close>, for one frequency sample: the phase
  constant, the dielectric and conductor loss terms and the propagation constant.\<close>

definition beta :: "real \<Rightarrow> real \<Rightarrow> real \<Rightarrow> real" where
  "beta e c0 fq = 2 * pi * fq * sqrt e / c0"

definition alpha_d :: "real \<Rightarrow> real \<Rightarrow> real \<Rightarrow> real \<Rightarrow> real" where
  "alpha_d e tand0 c0 fq = pi * fq * sqrt e * tand0 / c0"

definition alpha_c :: "real \<Rightarrow> real" where
  "alpha_c fq = 8.686 * 0.1 * sqrt fq"

definition alpha :: "real \<Rightarrow> real \<Rightarrow> real \<Rightarrow> real \<Rightarrow> real" where
  "alpha e tand0 c0 fq = alpha_d e tand0 c0 fq + alpha_c fq"

definition gamma :: "real \<Rightarrow> real \<Rightarrow> real \<Rightarrow> real \<Rightarrow> complex" where
  "gamma e tand0 c0 fq = of_real (alpha e tand0 c0 fq) + \<i> * of_real (beta e c0 fq)"

text \<open>Lines 46 to 49: the reflection coefficient against \<open>Z_ref = 50\<close>.\<close>

definition rho :: "real \<Rightarrow> real" where
  "rho z = (z - 50) / (z + 50)"

text \<open>
  Lines 52 to 55 for one sample: \<open>(S11, S21)\<close>. \<open>np.sqrt(self.f)\<close> is \<open>nan\<close> at a
  negative sample, and the numpy divisions by \<open>self.c\<close> and by
  \<open>1 - rho**2 * exp_gl**2\<close> are not finite at zero.
\<close>

definition line_sample ::
    "real \<Rightarrow> real \<Rightarrow> real \<Rightarrow> real \<Rightarrow> real \<Rightarrow> real \<Rightarrow> fault + (complex \<times> complex)" where
  "line_sample z e tand0 c0 length0 fq =
     (if c0 = 0 then Inl NotFinite
      else if fq < 0 then Inl NotFinite
      else
        let exp_gl = exp (- gamma e tand0 c0 fq * of_real length0);
            den = 1 - (of_real (rho z))\<^sup>2 * exp_gl\<^sup>2
        in if den = 0 then Inl NotFinite
           else Inr (of_real (rho z) * (1 - exp_gl\<^sup>2) / den,
                     exp_gl * (1 - (of_real (rho z))\<^sup>2) / den))"

text \<open>A comprehension or vectorised expression whose element computation may fault: the
  first fault ends it.\<close>

fun map_fault :: "('a \<Rightarrow> fault + 'b) \<Rightarrow> 'a list \<Rightarrow> fault + 'b list" where
  "map_fault g [] = Inr []"
| "map_fault g (x # xs) =
     (case g x of
        Inl e \<Rightarrow> Inl e
      | Inr y \<Rightarrow> (case map_fault g xs of Inl e \<Rightarrow> Inl e | Inr ys \<Rightarrow> Inr (y # ys)))"

text \<open>\<open>calc_s_parameters(self, w, length)\<close> returns \<open>(S11, S21, S12, S22, Z0)\<close> with
  \<open>S12 = S21\<close> and \<open>S22 = S11\<close>; \<open>rho\<close> is not finite for \<open>Z0 = -50\<close>.\<close>

definition calc_s_parameters ::
    "MicrostripAnalysis \<Rightarrow> real \<Rightarrow> real \<Rightarrow>
     fault + ((complex list \<times> complex list \<times> complex list \<times> complex list \<times> real)
              \<times> MicrostripAnalysis)" where
  "calc_s_parameters self w length0 =
     (case calc_microstrip_params self w of
        Inl e \<Rightarrow> Inl e
      | Inr ((z, e), self') \<Rightarrow>
          if z + 50 = 0 then Inl NotFinite
          else
            (case map_fault (line_sample z e (tand self') (c self') length0) (f self') of
               Inl e \<Rightarrow> Inl e
             | Inr ss \<Rightarrow>
                 let S11 = map fst ss; S21 = map snd ss
                 in Inr ((S11, S21, S21, S11, z), self')))"

section \<open>lpf\_design.py\<close>

text \<open>The constructor adds the system impedance \<open>self.Z0 = 50\<close>.\<close>

record LPFDesign = substrate +
  Z0 :: real

definition LPFDesign_init :: "real \<Rightarrow> real \<Rightarrow> real \<Rightarrow> LPFDesign" where
  "LPFDesign_init er0 h0 tand0 =
     \<lparr>er = er0, h = h0, tand = tand0, c = constants_c, Z0 = 50\<rparr>"

text \<open>
  \<open>calc_microstrip_width(self, Z_target)\<close> computes the ratio \<open>w_h\<close> in one of two
  branches and returns \<open>w_h * self.h\<close>. Below 44 ohm the ratio does not read
  \<open>Z_target\<close>:
\<close>

definition w_h_low :: "real \<Rightarrow> real" where
  "w_h_low er0 = 2 / pi * (er0 - 1) * ln (pi / 2) + (1 / pi) * ln (4 / pi)"

text \<open>From 44 ohm on, the ratio comes from the auxiliary \<open>A\<close>:\<close>

definition A_aux :: "real \<Rightarrow> real \<Rightarrow> real" where
  "A_aux er0 Z_target =
     Z_target * sqrt ((er0 + 1) / 2) / 60 + (er0 - 1) / (er0 + 1) * (0.23 + 0.11 / er0)"

definition w_h_high :: "real \<Rightarrow> real \<Rightarrow> real" where
  "w_h_high er0 Z_target =
     (let A = A_aux er0 Z_target in 8 * exp A / (exp (2 * A) - 2))"

text \<open>
  In that branch the Python divisions raise for \<open>er = -1\<close> and \<open>er = 0\<close>,
  \<open>np.sqrt\<close> is \<open>nan\<close> for \<open>er < -1\<close>, and the numpy division is infinite where
  \<open>exp(2A) = 2\<close>.
\<close>

definition calc_microstrip_width :: "LPFDesign \<Rightarrow> real \<Rightarrow> fault + real" where
  "calc_microstrip_width self Z_target =
     (if Z_target < 44 then Inr (w_h_low (er self) * h self)
      else if er self < - 1 then Inl NotFinite
      else if er self = - 1 then Inl ZeroDivisionError
      else if er self = 0 then Inl ZeroDivisionError
      else if exp (2 * A_aux (er self) Z_target) - 2 = 0 then Inl NotFinite
      else Inr (w_h_high (er self) Z_target * h self))"

text \<open>The prototype table \<open>g\<close> of \<open>design_stepped_lpf\<close> and Python's list indexing.\<close>

definition g_table :: "real list" where
  "g_table = [1.0, 0.6180, 1.6180, 2.0000, 1.6180, 0.6180, 1.0]"

definition py_index :: "'a list \<Rightarrow> int \<Rightarrow> fault + 'a" where
  "py_index xs i =
     (if 0 \<le> i \<and> i < int (length xs) then Inr (xs ! nat i)
      else if i < 0 \<and> - int (length xs) \<le> i then Inr (xs ! nat (int (length xs) + i))
      else Inl IndexError)"

text \<open>
  The loop \<open>for i in range(1, n+1)\<close> over the indices still to visit, with the lists
  \<open>Z_high\<close> and \<open>Z_low\<close> built so far. \<open>50/self.Z0\<close> raises for a zero \<open>self.Z0\<close>.
\<close>

fun stepped_sections ::
    "LPFDesign \<Rightarrow> int list \<Rightarrow> real list \<times> real list \<Rightarrow> fault + (real list \<times> real list)" where
  "stepped_sections self [] acc = Inr acc"
| "stepped_sections self (i # is) (Z_high, Z_low) =
     (case py_index g_table i of
        Inl e \<Rightarrow> Inl e
      | Inr gi \<Rightarrow>
          if i mod 2 = 1 then
            (if 1 + gi * (pi / 2) * (Z0 self / 50) < 0 then Inl NotFinite
             else stepped_sections self is
                    (Z_high @ [Z0 self * sqrt (1 + gi * (pi / 2) * (Z0 self / 50))], Z_low))
          else
            (if Z0 self = 0 then Inl ZeroDivisionError
             else if 1 + gi * (pi / 2) * (50 / Z0 self) \<le> 0 then Inl NotFinite
             else stepped_sections self is
                    (Z_high, Z_low @ [Z0 self / sqrt (1 + gi * (pi / 2) * (50 / Z0 self))])))"

text \<open>The dictionary \<open>design_stepped_lpf\<close> returns.\<close>

record design =
  Z_high :: "real list"
  Z_low :: "real list"
  widths_high :: "real list"
  widths_low :: "real list"
  section_length :: real
  lambda_g :: real

text \<open>\<open>design_stepped_lpf(self, fc, n)\<close>; \<open>range(1, n+1)\<close> is \<open>[1..n]\<close>, empty for
  \<open>n < 1\<close>.\<close>

definition design_stepped_lpf :: "LPFDesign \<Rightarrow> real \<Rightarrow> int \<Rightarrow> fault + design" where
  "design_stepped_lpf self fc n =
     (case stepped_sections self [1..n] ([], []) of
        Inl e \<Rightarrow> Inl e
      | Inr (Zh, Zl) \<Rightarrow>
          if er self < 0 then Inl NotFinite
          else if fc * sqrt (er self) = 0 then Inl NotFinite
          else
            let lam = c self / (fc * sqrt (er self)) in
            (case map_fault (calc_microstrip_width self) Zh of
               Inl e \<Rightarrow> Inl e
             | Inr wh \<Rightarrow>
                 (case map_fault (calc_microstrip_width self) Zl of
                    Inl e \<Rightarrow> Inl e
                  | Inr wl \<Rightarrow>
                      Inr \<lparr>Z_high = Zh, Z_low = Zl, widths_high = wh, widths_low = wl,
                           section_length = lam / 8, lambda_g = lam\<rparr>)))"

text \<open>The sections of a design, each impedance beside its width, high ones first.\<close>

definition sections :: "design \<Rightarrow> (real \<times> real) list" where
  "sections d = zip (Z_high d) (widths_high d) @ zip (Z_low d) (widths_low d)"

section \<open>resonator\_analysis.py\<close>

definition ResonatorAnalysis_init :: "real \<Rightarrow> real \<Rightarrow> real \<Rightarrow> substrate" where
  "ResonatorAnalysis_init er0 h0 tand0 = \<lparr>er = er0, h = h0, tand = tand0, c = constants_c\<rparr>"

text \<open>\<open>calc_resonator_length(self, f_res, w)\<close> returns \<open>(length, eff_er)\<close>.\<close>

definition calc_resonator_length :: "substrate \<Rightarrow> real \<Rightarrow> real \<Rightarrow> fault + (real \<times> real)" where
  "calc_resonator_length self f_res w =
     (if w = 0 then Inl ZeroDivisionError
      else if 1 + 12 * h self / w = 0 then Inl ZeroDivisionError
      else if 1 + 12 * h self / w < 0 then Inl NotFinite
      else
        let e = (er self + 1) / 2 + (er self - 1) / 2 * (1 + 12 * h self / w) powr (- 0.5)
        in if e < 0 then Inl NotFinite
           else if f_res * sqrt e = 0 then Inl NotFinite
           else
             let lam = c self / (f_res * sqrt e)
             in Inr (lam / 4, e))"

text \<open>The single-pole model of one sample: \<open>delta\<close>, \<open>S11\<close> and \<open>S21\<close>.\<close>

definition delta :: "real \<Rightarrow> real \<Rightarrow> real" where
  "delta f_res fq = (fq - f_res) / f_res"

definition Q_total :: real where
  "Q_total = 1 / (1 / 100 + 1 / 1000)"

definition resonator_S11 :: "real \<Rightarrow> real \<Rightarrow> complex" where
  "resonator_S11 f_res fq =
     (\<i> * of_real Q_total * of_real (delta f_res fq))
       / (1 + \<i> * of_real Q_total * of_real (delta f_res fq))"

definition resonator_S21 :: "real \<Rightarrow> real \<Rightarrow> real \<Rightarrow> complex" where
  "resonator_S21 k f_res fq =
     of_real k / (1 + \<i> * of_real Q_total * of_real (delta f_res fq))"

text \<open>
  \<open>calc_resonator_s_params(self, d, g, w, f_range)\<close> returns
  \<open>(f, S11, S21, f_res, length)\<close>. \<open>-g/self.h\<close> raises for \<open>h = 0\<close>; \<open>d\<close> is not read.
\<close>

definition calc_resonator_s_params ::
    "substrate \<Rightarrow> real \<Rightarrow> real \<Rightarrow> real \<Rightarrow> real \<times> real \<times> int \<Rightarrow>
     fault + (real list \<times> complex list \<times> complex list \<times> real \<times> real)" where
  "calc_resonator_s_params self d g w f_range =
     (case linspace f_range of
        Inl e \<Rightarrow> Inl e
      | Inr fs \<Rightarrow>
          if h self = 0 then Inl ZeroDivisionError
          else
            let k = 0.1 * exp (- g / h self) in
            (case calc_resonator_length self 5000000000 w of
               Inl e \<Rightarrow> Inl e
             | Inr (length0, e) \<Rightarrow>
                 if 4 * length0 * sqrt e = 0 then Inl NotFinite
                 else
                   let f_res = c self / (4 * length0 * sqrt e) in
                   if fs \<noteq> [] \<and> f_res = 0 then Inl NotFinite
                   else Inr (fs, map (resonator_S11 f_res) fs,
                             map (resonator_S21 k f_res) fs, f_res, length0)))"


section \<open>The resonant frequency in doubles\<close>

text \<open>
  C10 says "exactly", which the reals cannot decide for a float program: the lines that
  compute \<open>f_res\<close> are therefore modelled a second time, in IEEE binary64. \<open>fl\<close> rounds a
  real to the nearest double, ties to even (53 significant bits; overflow and subnormal
  numbers are not modelled). Every \<open>+\<close>, \<open>-\<close>, \<open>*\<close>, \<open>/\<close> and \<open>np.sqrt\<close> of the
  source returns the rounded exact result; so does \<open>**\<close> here, which is certain only
  where the power is itself a double.
\<close>

definition round_even :: "real \<Rightarrow> int" where
  "round_even r =
     (let n = \<lfloor>r\<rfloor> in
      if r - of_int n < 1 / 2 then n
      else if 1 / 2 < r - of_int n then n + 1
      else if even n then n else n + 1)"

definition fl :: "real \<Rightarrow> real" where
  "fl x =
     (if x = 0 then 0
      else let e = \<lfloor>log 2 \<bar>x\<bar>\<rfloor> - 52
           in of_int (round_even (x / 2 powr of_int e)) * 2 powr of_int e)"

text \<open>\<open>calc_resonator_length(self, f_res, w)\<close> in doubles, operation by operation.\<close>

definition calc_resonator_length_double ::
    "substrate \<Rightarrow> real \<Rightarrow> real \<Rightarrow> fault + (real \<times> real)" where
  "calc_resonator_length_double self f_res w =
     (if w = 0 then Inl ZeroDivisionError
      else
        let base = fl (1 + fl (fl (12 * h self) / w)) in
        if base = 0 then Inl ZeroDivisionError
        else if base < 0 then Inl NotFinite
        else
          let e = fl (fl (fl (er self + 1) / 2)
                      + fl (fl (fl (er self - 1) / 2) * fl (base powr (- 0.5))))
          in if e < 0 then Inl NotFinite
             else if fl (f_res * fl (sqrt e)) = 0 then Inl NotFinite
             else
               let lam = fl (c self / fl (f_res * fl (sqrt e)))
               in Inr (fl (lam / 4), e))"

text \<open>The two lines of \<open>calc_resonator_s_params\<close> that compute \<open>f_res\<close>, in doubles:
  the length for the 5 GHz nominal, then \<open>self.c / (4 * length * np.sqrt(eff_er))\<close>.\<close>

definition f_res_double :: "substrate \<Rightarrow> real \<Rightarrow> fault + real" where
  "f_res_double self w =
     (case calc_resonator_length_double self 5000000000 w of
        Inl e \<Rightarrow> Inl e
      | Inr (length0, e) \<Rightarrow>
          let q = fl (fl (4 * length0) * fl (sqrt e))
          in if q = 0 then Inl NotFinite else Inr (fl (c self / q)))"

section \<open>The formulas as the specification words them\<close>

definition spec_eff_er_wide :: "real \<Rightarrow> real \<Rightarrow> real \<Rightarrow> real" where
  "spec_eff_er_wide er0 h0 w =
     (er0 + 1) / 2 + (er0 - 1) / 2 * (1 / sqrt (1 + 12 * h0 / w))"

definition spec_Z0_wide :: "real \<Rightarrow> real \<Rightarrow> real \<Rightarrow> real" where
  "spec_Z0_wide er0 h0 w =
     120 * pi / (sqrt (spec_eff_er_wide er0 h0 w) *
                  (w / h0 + 1.393 + 0.667 * ln (w / h0 + 1.444)))"

definition spec_eff_er_narrow :: "real \<Rightarrow> real \<Rightarrow> real \<Rightarrow> real" where
  "spec_eff_er_narrow er0 h0 w =
     (er0 + 1) / 2 + (er0 - 1) / 2 *
       (1 / sqrt (1 + 12 * h0 / w) + 0.04 * (1 - w / h0)\<^sup>2)"

definition spec_Z0_narrow :: "real \<Rightarrow> real \<Rightarrow> real \<Rightarrow> real" where
  "spec_Z0_narrow er0 h0 w =
     60 / sqrt (spec_eff_er_narrow er0 h0 w) * ln (8 * h0 / w + w / (4 * h0))"

text \<open>The section impedances of the stepped filter, from the system impedance and a
  prototype value.\<close>

definition spec_Z_high :: "real \<Rightarrow> real \<Rightarrow> real" where
  "spec_Z_high z0 g = z0 * sqrt (1 + g * (pi / 2) * (z0 / 50))"

definition spec_Z_low :: "real \<Rightarrow> real \<Rightarrow> real" where
  "spec_Z_low z0 g = z0 / sqrt (1 + g * (pi / 2) * (50 / z0))"

text \<open>
  The Chebyshev low-pass prototype that the comment of \<open>design_stepped_lpf\<close> and the
  specification name, by its closed form for order \<open>n\<close> and pass-band ripple \<open>L\<close> in dB:
  \<open>\<beta> = ln (coth (L / 17.37))\<close>, \<open>\<gamma> = sinh (\<beta> / 2n)\<close>,
  \<open>a k = sin ((2k - 1) \<pi> / 2n)\<close>, \<open>b k = \<gamma>\<^sup>2 + sin\<^sup>2 (k \<pi> / n)\<close>, \<open>g 1 = 2 a 1 / \<gamma>\<close> and
  \<open>g k = 4 a (k - 1) a k / (b (k - 1) g (k - 1))\<close> for \<open>k = 2..n\<close>; \<open>g 0 = 1\<close>.
\<close>

definition chebyshev_gamma :: "nat \<Rightarrow> real \<Rightarrow> real" where
  "chebyshev_gamma n L = sinh (ln (cosh (L / 17.37) / sinh (L / 17.37)) / (2 * real n))"

definition chebyshev_a :: "nat \<Rightarrow> nat \<Rightarrow> real" where
  "chebyshev_a n k = sin ((2 * real k - 1) * pi / (2 * real n))"

definition chebyshev_b :: "nat \<Rightarrow> real \<Rightarrow> nat \<Rightarrow> real" where
  "chebyshev_b n L k = (chebyshev_gamma n L)\<^sup>2 + (sin (real k * pi / real n))\<^sup>2"

fun chebyshev_g :: "nat \<Rightarrow> real \<Rightarrow> nat \<Rightarrow> real" where
  "chebyshev_g n L 0 = 1"
| "chebyshev_g n L (Suc 0) = 2 * chebyshev_a n 1 / chebyshev_gamma n L"
| "chebyshev_g n L (Suc (Suc k)) =
     4 * chebyshev_a n (Suc k) * chebyshev_a n (Suc (Suc k))
       / (chebyshev_b n L (Suc k) * chebyshev_g n L (Suc k))"

section \<open>Properties of calc\_microstrip\_params\<close>

lemma rsqrt_powr: "0 < x \<Longrightarrow> x powr (- 0.5) = 1 / sqrt x" for x :: real
proof -
  assume x: "0 < x"
  have "x powr (- 0.5) = x powr (- (1 / 2))" by simp
  also have "\<dots> = 1 / (x powr (1 / 2))" by (simp only: powr_minus_divide)
  also have "\<dots> = 1 / sqrt x" using x by (simp add: powr_half_sqrt)
  finally show ?thesis .
qed

lemma base_pos: "0 < w \<Longrightarrow> 0 < h0 \<Longrightarrow> 0 < 1 + 12 * h0 / w" for w h0 :: real
  by (simp add: add_pos_nonneg)

lemma eff_er_formula_pos:
  assumes "0 < w" "0 < h0" "1 < er0"
  shows "0 < eff_er_formula er0 h0 w"
proof -
  have a: "0 < (er0 + 1) / 2" using assms by simp
  have b: "0 \<le> (er0 - 1) / 2" using assms by simp
  have p: "0 \<le> (1 + 12 * h0 / w) powr (- 0.5)" by simp
  have q: "0 \<le> (1 + 12 * h0 / w) powr (- 0.5) + 0.04 * (1 - w / h0)\<^sup>2"
    by (intro add_nonneg_nonneg) simp_all
  show ?thesis
    unfolding eff_er_formula_def
    using a mult_nonneg_nonneg [OF b p] mult_nonneg_nonneg [OF b q]
    by (simp only: split: if_split) (intro conjI impI add_pos_nonneg; assumption)
qed

lemma narrow_log_arg_pos: "0 < w \<Longrightarrow> 0 < h0 \<Longrightarrow> 0 < 8 * h0 / w + w / (4 * h0)"
  for w h0 :: real
  by (intro add_pos_pos) simp_all

lemma calc_microstrip_params_domain:
  assumes "0 < w" "0 < h self" "1 < er self"
  shows "calc_microstrip_params self w =
           Inr ((Z0_formula (eff_er_formula (er self) (h self) w) (h self) w,
                 eff_er_formula (er self) (h self) w),
                self\<lparr>eff_er := Some (eff_er_formula (er self) (h self) w),
                     MicrostripAnalysis.Z0 := Some (Z0_formula (eff_er_formula (er self) (h self) w)
                                  (h self) w)\<rparr>)"
proof -
  have e: "\<not> eff_er_formula (er self) (h self) w \<le> 0"
    using eff_er_formula_pos [OF assms] by simp
  have b: "\<not> 1 + 12 * h self / w \<le> 0"
    using base_pos [OF assms(1,2)] by simp
  have l: "\<not> 8 * h self / w + w / (4 * h self) \<le> 0"
    using narrow_log_arg_pos [OF assms(1,2)] by simp
  have r: "0 < w / h self" using assms by simp
  have k: "\<not> w / h self + 1.444 \<le> 0" using r by simp
  have b0: "1 + 12 * h self / w \<noteq> 0" "\<not> 1 + 12 * h self / w < 0" using b by auto
  have n0: "h self \<noteq> 0" "w \<noteq> 0" using assms by auto
  show ?thesis
    unfolding calc_microstrip_params_def Let_def
    by (simp only: n0 b0 e k l if_False simp_thms)
qed

text \<open>
  C5. For every \<open>w > 0\<close>, \<open>h > 0\<close> and \<open>er > 1\<close>, \<open>calc_microstrip_params\<close> returns
  exactly the piecewise Hammerstad formulas: for \<open>w/h \<ge> 1\<close> the wide-line
  \<open>eff_er\<close> and \<open>Z0\<close>, for \<open>w/h < 1\<close> the narrow-line ones, whose \<open>eff_er\<close> holds
  the \<open>0.04 (1 - w/h)\<^sup>2\<close> correction.
\<close>

theorem calc_microstrip_params_hammerstad:
  assumes "0 < w" "0 < h self" "1 < er self"
  shows "returned (calc_microstrip_params self w) =
           (if w / h self \<ge> 1
            then Inr (spec_Z0_wide (er self) (h self) w, spec_eff_er_wide (er self) (h self) w)
            else Inr (spec_Z0_narrow (er self) (h self) w,
                      spec_eff_er_narrow (er self) (h self) w))"
proof -
  have p: "(1 + 12 * h self / w) powr (- 0.5) = 1 / sqrt (1 + 12 * h self / w)"
    by (rule rsqrt_powr [OF base_pos [OF assms(1,2)]])
  have e: "eff_er_formula (er self) (h self) w =
             (if w / h self \<ge> 1 then spec_eff_er_wide (er self) (h self) w
              else spec_eff_er_narrow (er self) (h self) w)"
    by (simp only: eff_er_formula_def p spec_eff_er_wide_def spec_eff_er_narrow_def)
  show ?thesis
    unfolding calc_microstrip_params_domain [OF assms] returned_def e
    by (simp add: Z0_formula_def spec_Z0_wide_def spec_Z0_narrow_def)
qed

theorem calc_microstrip_params_hammerstad_witness:
  "returned (calc_microstrip_params
      \<lparr>er = 4.4, h = 0.0016, tand = 0.025, c = constants_c, f = [], eff_er = None,
       MicrostripAnalysis.Z0 = None\<rparr> 0.002)
     = Inr (spec_Z0_wide 4.4 0.0016 0.002, spec_eff_er_wide 4.4 0.0016 0.002)
   \<and> returned (calc_microstrip_params
      \<lparr>er = 4.4, h = 0.0016, tand = 0.025, c = constants_c, f = [], eff_er = None,
       MicrostripAnalysis.Z0 = None\<rparr> 0.001)
     = Inr (spec_Z0_narrow 4.4 0.0016 0.001, spec_eff_er_narrow 4.4 0.0016 0.001)"
  using calc_microstrip_params_hammerstad [of "0.002"
      "\<lparr>er = 4.4, h = 0.0016, tand = 0.025, c = constants_c, f = [], eff_er = None,
       MicrostripAnalysis.Z0 = None\<rparr>"]
    calc_microstrip_params_hammerstad [of "0.001"
      "\<lparr>er = 4.4, h = 0.0016, tand = 0.025, c = constants_c, f = [], eff_er = None,
       MicrostripAnalysis.Z0 = None\<rparr>"]
  by simp

subsection \<open>No hidden state\<close>

lemma calc_microstrip_params_reads:
  assumes "er s2 = er s1" "h s2 = h s1"
  shows "returned (calc_microstrip_params s2 w) = returned (calc_microstrip_params s1 w)"
  unfolding calc_microstrip_params_def returned_def Let_def assms
  by simp

lemma calc_microstrip_params_keeps:
  assumes "calc_microstrip_params s w = Inr (r, s')"
  shows "er s' = er s \<and> h s' = h s \<and> tand s' = tand s \<and> c s' = c s \<and> f s' = f s"
  using assms unfolding calc_microstrip_params_def Let_def
  by (auto split: if_splits)

text \<open>
  C9. The pair \<open>(Z0, eff_er)\<close> that \<open>calc_microstrip_params\<close> returns is a function
  of the width, the substrate height and the permittivity alone. Two objects that agree
  on \<open>er\<close> and \<open>h\<close> return the same for the same width, whatever their other
  attributes hold (among them the \<open>eff_er\<close> and \<open>Z0\<close> an earlier call assigned); and
  the object an earlier call with any other width leaves behind returns what the
  original object returns.
\<close>

theorem calc_microstrip_params_deterministic:
  "(er s2 = er s1 \<and> h s2 = h s1 \<longrightarrow>
      returned (calc_microstrip_params s2 w) = returned (calc_microstrip_params s1 w))
   \<and> (calc_microstrip_params s1 w0 = Inr (r0, s') \<longrightarrow>
      returned (calc_microstrip_params s' w) = returned (calc_microstrip_params s1 w))"
  using calc_microstrip_params_reads [of s2 s1 w] calc_microstrip_params_reads [of s' s1 w]
    calc_microstrip_params_keeps [of s1 w0 r0 s']
  by blast

theorem calc_microstrip_params_deterministic_witness:
  "(er \<lparr>er = 4.4, h = 0.0016, tand = 0, c = 1, f = [1], eff_er = Some 7,
        MicrostripAnalysis.Z0 = Some 9\<rparr>
      = er \<lparr>er = 4.4, h = 0.0016, tand = 0.025, c = constants_c, f = [], eff_er = None,
        MicrostripAnalysis.Z0 = None\<rparr>
    \<and> h \<lparr>er = 4.4, h = 0.0016, tand = 0, c = 1, f = [1], eff_er = Some 7,
        MicrostripAnalysis.Z0 = Some 9\<rparr>
      = h \<lparr>er = 4.4, h = 0.0016, tand = 0.025, c = constants_c, f = [], eff_er = None,
        MicrostripAnalysis.Z0 = None\<rparr>
    \<and> returned (calc_microstrip_params
          \<lparr>er = 4.4, h = 0.0016, tand = 0, c = 1, f = [1], eff_er = Some 7,
           MicrostripAnalysis.Z0 = Some 9\<rparr> 0.002)
      = returned (calc_microstrip_params
          \<lparr>er = 4.4, h = 0.0016, tand = 0.025, c = constants_c, f = [], eff_er = None,
           MicrostripAnalysis.Z0 = None\<rparr> 0.002))
   \<and> (\<exists>r0 s'. calc_microstrip_params
          \<lparr>er = 4.4, h = 0.0016, tand = 0.025, c = constants_c, f = [], eff_er = None,
           MicrostripAnalysis.Z0 = None\<rparr> 0.005 = Inr (r0, s')
        \<and> returned (calc_microstrip_params s' 0.002)
          = returned (calc_microstrip_params
              \<lparr>er = 4.4, h = 0.0016, tand = 0.025, c = constants_c, f = [], eff_er = None,
               MicrostripAnalysis.Z0 = None\<rparr> 0.002))"
proof -
  let ?s1 = "\<lparr>er = 4.4, h = 0.0016, tand = 0.025, c = constants_c, f = [], eff_er = None,
               MicrostripAnalysis.Z0 = None\<rparr>"
  let ?s2 = "\<lparr>er = 4.4, h = 0.0016, tand = 0, c = 1, f = [1], eff_er = Some 7,
               MicrostripAnalysis.Z0 = Some 9\<rparr>"
  have a: "er ?s2 = er ?s1 \<and> h ?s2 = h ?s1" by simp
  obtain r0 s' where call: "calc_microstrip_params ?s1 0.005 = Inr (r0, s')"
    using calc_microstrip_params_domain [of "0.005" ?s1] by simp
  from a call calc_microstrip_params_deterministic [of ?s2 ?s1 "0.002" "0.005" r0 s']
  show ?thesis by blast
qed

section \<open>Properties of the stepped low-pass synthesis\<close>

lemma py_index_g: "py_index g_table 1 = Inr 0.618" "py_index g_table 2 = Inr 1.618"
  "py_index g_table 3 = Inr 2" "py_index g_table 4 = Inr 1.618" "py_index g_table 5 = Inr 0.618"
  "py_index g_table 6 = Inr 1"
  by (simp_all add: py_index_def g_table_def)

lemma py_index_g_out: "7 \<le> i \<Longrightarrow> py_index g_table i = Inl IndexError"
  by (simp add: py_index_def g_table_def)

lemma radicand_pos: "0 \<le> g \<Longrightarrow> 0 < 1 + g * (pi / 2) * (50 / 50)" for g :: real
  by (simp add: add_pos_nonneg)

lemma step_odd:
  assumes "LPFDesign.Z0 self = 50" "py_index g_table i = Inr gi" "i mod 2 = 1" "0 \<le> gi"
  shows "stepped_sections self (i # js) (Zh, Zl) =
           stepped_sections self js (Zh @ [spec_Z_high 50 gi], Zl)"
proof -
  have "\<not> 1 + gi * (pi / 2) * (50 / 50) < 0"
    using radicand_pos [OF assms(4)] by simp
  then show ?thesis
    using assms(1,2,3) by (simp add: spec_Z_high_def)
qed

lemma step_even:
  assumes "LPFDesign.Z0 self = 50" "py_index g_table i = Inr gi" "i mod 2 = 0" "0 \<le> gi"
  shows "stepped_sections self (i # js) (Zh, Zl) =
           stepped_sections self js (Zh, Zl @ [spec_Z_low 50 gi])"
proof -
  have "\<not> 1 + gi * (pi / 2) * (50 / 50) \<le> 0"
    using radicand_pos [OF assms(4)] by simp
  then show ?thesis
    using assms(1,2,3) by (simp add: spec_Z_low_def)
qed

lemma step_out:
  assumes "7 \<le> i"
  shows "stepped_sections self (i # js) (Zh, Zl) = Inl IndexError"
  using py_index_g_out [OF assms] by simp

lemma upto_1: "[1..0::int] = []" "[1..1::int] = [1]" "[1..2::int] = [1,2]" "[1..3::int] = [1,2,3]"
  "[1..4::int] = [1,2,3,4]" "[1..5::int] = [1,2,3,4,5]" "[1..6::int] = [1,2,3,4,5,6]"
  by (simp_all add: upto_rec1)

lemma sections_upto:
  assumes z: "LPFDesign.Z0 self = 50"
  shows "stepped_sections self [1..1] ([], []) = Inr ([spec_Z_high 50 0.618], [])"
    "stepped_sections self [1..2] ([], []) = Inr ([spec_Z_high 50 0.618], [spec_Z_low 50 1.618])"
    "stepped_sections self [1..3] ([], []) =
       Inr ([spec_Z_high 50 0.618, spec_Z_high 50 2], [spec_Z_low 50 1.618])"
    "stepped_sections self [1..4] ([], []) =
       Inr ([spec_Z_high 50 0.618, spec_Z_high 50 2], [spec_Z_low 50 1.618, spec_Z_low 50 1.618])"
    "stepped_sections self [1..5] ([], []) =
       Inr ([spec_Z_high 50 0.618, spec_Z_high 50 2, spec_Z_high 50 0.618],
            [spec_Z_low 50 1.618, spec_Z_low 50 1.618])"
    "stepped_sections self [1..6] ([], []) =
       Inr ([spec_Z_high 50 0.618, spec_Z_high 50 2, spec_Z_high 50 0.618],
            [spec_Z_low 50 1.618, spec_Z_low 50 1.618, spec_Z_low 50 1])"
proof -
  have s1: "\<And>js Zh Zl. stepped_sections self (1 # js) (Zh, Zl) =
      stepped_sections self js (Zh @ [spec_Z_high 50 0.618], Zl)"
    by (rule step_odd [OF z py_index_g(1)]) simp_all
  have s2: "\<And>js Zh Zl. stepped_sections self (2 # js) (Zh, Zl) =
      stepped_sections self js (Zh, Zl @ [spec_Z_low 50 1.618])"
    by (rule step_even [OF z py_index_g(2)]) simp_all
  have s3: "\<And>js Zh Zl. stepped_sections self (3 # js) (Zh, Zl) =
      stepped_sections self js (Zh @ [spec_Z_high 50 2], Zl)"
    by (rule step_odd [OF z py_index_g(3)]) simp_all
  have s4: "\<And>js Zh Zl. stepped_sections self (4 # js) (Zh, Zl) =
      stepped_sections self js (Zh, Zl @ [spec_Z_low 50 1.618])"
    by (rule step_even [OF z py_index_g(4)]) simp_all
  have s5: "\<And>js Zh Zl. stepped_sections self (5 # js) (Zh, Zl) =
      stepped_sections self js (Zh @ [spec_Z_high 50 0.618], Zl)"
    by (rule step_odd [OF z py_index_g(5)]) simp_all
  have s6: "\<And>js Zh Zl. stepped_sections self (6 # js) (Zh, Zl) =
      stepped_sections self js (Zh, Zl @ [spec_Z_low 50 1])"
    by (rule step_even [OF z py_index_g(6)]) simp_all
  note ss = upto_1 s1 s2 s3 s4 s5 s6 stepped_sections.simps(1) append.simps
  show "stepped_sections self [1..1] ([], []) = Inr ([spec_Z_high 50 0.618], [])"
    by (simp only: ss)
  show "stepped_sections self [1..2] ([], []) =
      Inr ([spec_Z_high 50 0.618], [spec_Z_low 50 1.618])"
    by (simp only: ss)
  show "stepped_sections self [1..3] ([], []) =
       Inr ([spec_Z_high 50 0.618, spec_Z_high 50 2], [spec_Z_low 50 1.618])"
    by (simp only: ss)
  show "stepped_sections self [1..4] ([], []) =
       Inr ([spec_Z_high 50 0.618, spec_Z_high 50 2], [spec_Z_low 50 1.618, spec_Z_low 50 1.618])"
    by (simp only: ss)
  show "stepped_sections self [1..5] ([], []) =
       Inr ([spec_Z_high 50 0.618, spec_Z_high 50 2, spec_Z_high 50 0.618],
            [spec_Z_low 50 1.618, spec_Z_low 50 1.618])"
    by (simp only: ss)
  show "stepped_sections self [1..6] ([], []) =
       Inr ([spec_Z_high 50 0.618, spec_Z_high 50 2, spec_Z_high 50 0.618],
            [spec_Z_low 50 1.618, spec_Z_low 50 1.618, spec_Z_low 50 1])"
    by (simp only: ss)
qed

lemma stepped_sections_append:
  "stepped_sections self (xs @ ys) acc =
     (case stepped_sections self xs acc of
        Inl e \<Rightarrow> Inl e
      | Inr acc' \<Rightarrow> stepped_sections self ys acc')"
proof (induction xs arbitrary: acc)
  case Nil
  show ?case by simp
next
  case (Cons i js)
  obtain Zh Zl where acc: "acc = (Zh, Zl)" by (cases acc)
  show ?case
    unfolding acc by (simp add: Cons.IH split: sum.splits)
qed

lemma sections_out:
  assumes z: "LPFDesign.Z0 self = 50" and n: "7 \<le> n"
  shows "stepped_sections self [1..n] ([], []) = Inl IndexError"
proof -
  have "[1..n] = [1..6] @ [7..n]"
    using n upto_split2 [of 1 6 n] by simp
  also have "[7..n] = 7 # [8..n]"
    using n by (simp add: upto_rec1)
  finally have "[1..n] = [1..6] @ 7 # [8..n]" .
  then show ?thesis
    by (simp add: stepped_sections_append sections_upto(6) [OF z] step_out
        del: stepped_sections.simps)
qed


lemma map_fault_all:
  "(\<And>x. x \<in> set xs \<Longrightarrow> g x = Inr (k x)) \<Longrightarrow> map_fault g xs = Inr (map k xs)"
  by (induction xs) simp_all

lemma spec_Z_high_ge: "0 \<le> g \<Longrightarrow> 50 \<le> spec_Z_high 50 g"
proof -
  assume g: "0 \<le> g"
  have "1 \<le> 1 + g * (pi / 2) * (50 / 50)" using g by simp
  then have "1 \<le> sqrt (1 + g * (pi / 2) * (50 / 50))" by (simp only: real_sqrt_ge_1_iff)
  then show ?thesis unfolding spec_Z_high_def by linarith
qed

lemma spec_Z_low_less: "618 / 1000 \<le> g \<Longrightarrow> spec_Z_low 50 g < 44"
proof -
  assume g: "618 / 1000 \<le> g"
  have "618 / 1000 * 1 \<le> g * (pi / 2)"
    using g pi_ge_two by (intro mult_mono) simp_all
  then have r: "(6 / 5)\<^sup>2 \<le> 1 + g * (pi / 2) * (50 / 50)"
    by (simp add: power2_eq_square)
  have q: "6 / 5 \<le> sqrt (1 + g * (pi / 2) * (50 / 50))"
    by (rule real_le_rsqrt [OF r])
  have "50 / sqrt (1 + g * (pi / 2) * (50 / 50)) \<le> 50 / (6 / 5)"
    by (rule frac_le [OF _ _ _ q]) simp_all
  then show ?thesis unfolding spec_Z_low_def by simp
qed

lemma A_aux_lower:
  assumes "44 \<le> Z" "1 < er0"
  shows "11 / 15 \<le> A_aux er0 Z"
proof -
  have "1 \<le> sqrt ((er0 + 1) / 2)" using assms(2) by simp
  then have "44 * 1 \<le> Z * sqrt ((er0 + 1) / 2)"
    using assms(1) by (intro mult_mono) simp_all
  then have a: "11 / 15 \<le> Z * sqrt ((er0 + 1) / 2) / 60" by simp
  have "0 \<le> (er0 - 1) / (er0 + 1) * (0.23 + 0.11 / er0)"
    using assms(2) by (intro mult_nonneg_nonneg divide_nonneg_nonneg add_nonneg_nonneg) simp_all
  with a show ?thesis unfolding A_aux_def by linarith
qed

lemma exp_2A_gt: "11 / 15 \<le> A \<Longrightarrow> 2 < exp (2 * A)" for A :: real
  using exp_ge_add_one_self [of "2 * A"] by linarith

lemma width_high_branch:
  assumes "44 \<le> Z" "1 < er self"
  shows "calc_microstrip_width self Z = Inr (w_h_high (er self) Z * h self)"
  using assms exp_2A_gt [OF A_aux_lower [OF assms]]
  by (simp add: calc_microstrip_width_def)

lemma width_low_branch:
  "Z < 44 \<Longrightarrow> calc_microstrip_width self Z = Inr (w_h_low (er self) * h self)"
  by (simp add: calc_microstrip_width_def)

lemma design_from_sections:
  assumes s: "stepped_sections self [1..n] ([], []) = Inr (Zh, Zl)"
    and hi: "\<And>Z. Z \<in> set Zh \<Longrightarrow> 44 \<le> Z" and lo: "\<And>Z. Z \<in> set Zl \<Longrightarrow> Z < 44"
    and e: "1 < er self" and fc: "0 < fc"
  shows "design_stepped_lpf self fc n =
           Inr \<lparr>Z_high = Zh, Z_low = Zl,
                widths_high = map (\<lambda>Z. w_h_high (er self) Z * h self) Zh,
                widths_low = map (\<lambda>Z. w_h_low (er self) * h self) Zl,
                section_length = c self / (fc * sqrt (er self)) / 8,
                lambda_g = c self / (fc * sqrt (er self))\<rparr>"
proof -
  have wh: "map_fault (calc_microstrip_width self) Zh =
              Inr (map (\<lambda>Z. w_h_high (er self) Z * h self) Zh)"
    by (rule map_fault_all) (simp add: width_high_branch hi e)
  have wl: "map_fault (calc_microstrip_width self) Zl =
              Inr (map (\<lambda>Z. w_h_low (er self) * h self) Zl)"
    by (rule map_fault_all) (simp add: width_low_branch lo)
  show ?thesis
    using e fc by (simp add: design_stepped_lpf_def s wh wl Let_def)
qed


lemma LPFDesign_init_sel:
  "er (LPFDesign_init er0 h0 tand0) = er0" "h (LPFDesign_init er0 h0 tand0) = h0"
  "tand (LPFDesign_init er0 h0 tand0) = tand0" "c (LPFDesign_init er0 h0 tand0) = constants_c"
  "LPFDesign.Z0 (LPFDesign_init er0 h0 tand0) = 50"
  by (simp_all add: LPFDesign_init_def)

lemma design_table_sections:
  assumes s: "stepped_sections (LPFDesign_init er0 h0 tand0) [1..n] ([], []) = Inr (Zh, Zl)"
    and hi: "set Zh \<subseteq> {spec_Z_high 50 0.618, spec_Z_high 50 2}"
    and lo: "set Zl \<subseteq> {spec_Z_low 50 1.618, spec_Z_low 50 1}"
    and e: "1 < er0" and fc: "0 < fc"
  shows "design_stepped_lpf (LPFDesign_init er0 h0 tand0) fc n =
           Inr \<lparr>Z_high = Zh, Z_low = Zl,
                widths_high = map (\<lambda>Z. w_h_high er0 Z * h0) Zh,
                widths_low = map (\<lambda>Z. w_h_low er0 * h0) Zl,
                section_length = constants_c / (fc * sqrt er0) / 8,
                lambda_g = constants_c / (fc * sqrt er0)\<rparr>"
proof -
  let ?self = "LPFDesign_init er0 h0 tand0"
  have e': "1 < er ?self" using e by (simp add: LPFDesign_init_sel)
  have a: "Z \<in> set Zh \<Longrightarrow> 44 \<le> Z" for Z
    using hi spec_Z_high_ge [of "0.618"] spec_Z_high_ge [of 2] by auto
  have b: "Z \<in> set Zl \<Longrightarrow> Z < 44" for Z
    using lo spec_Z_low_less [of "1.618"] spec_Z_low_less [of 1] by auto
  show ?thesis
    using design_from_sections [of ?self n Zh Zl fc, OF s a b e' fc]
    by (simp add: LPFDesign_init_sel)
qed

lemma design_5_value:
  assumes "1 < er0" "0 < fc"
  shows "design_stepped_lpf (LPFDesign_init er0 h0 tand0) fc 5 =
      Inr \<lparr>Z_high = [spec_Z_high 50 0.618, spec_Z_high 50 2, spec_Z_high 50 0.618],
           Z_low = [spec_Z_low 50 1.618, spec_Z_low 50 1.618],
           widths_high = [w_h_high er0 (spec_Z_high 50 0.618) * h0,
             w_h_high er0 (spec_Z_high 50 2) * h0, w_h_high er0 (spec_Z_high 50 0.618) * h0],
           widths_low = [w_h_low er0 * h0, w_h_low er0 * h0],
           section_length = constants_c / (fc * sqrt er0) / 8,
           lambda_g = constants_c / (fc * sqrt er0)\<rparr>"
  using design_table_sections [OF sections_upto(5) [OF LPFDesign_init_sel(5)] _ _ assms]
  by simp

text \<open>
  The alternation for \<open>n = 5\<close>, on a valid substrate (\<open>er > 1\<close>) and cutoff
  (\<open>fc > 0\<close>): three high-impedance and two low-impedance sections, the odd \<open>i\<close>
  giving \<open>Z0 \<surd>(1 + g[i] (\<pi>/2) (Z0/50))\<close>, the even \<open>i\<close> giving
  \<open>Z0 / \<surd>(1 + g[i] (\<pi>/2) (50/Z0))\<close>, with \<open>Z0 = 50\<close> and the literals of the
  table \<open>g\<close>.
\<close>

lemma design_order_5_alternation:
  assumes "1 < er0" "0 < fc"
  shows "\<exists>d. design_stepped_lpf (LPFDesign_init er0 h0 tand0) fc 5 = Inr d
              \<and> Z_high d = [spec_Z_high 50 0.618, spec_Z_high 50 2, spec_Z_high 50 0.618]
              \<and> Z_low d = [spec_Z_low 50 1.618, spec_Z_low 50 1.618]
              \<and> length (Z_high d) = 3 \<and> length (Z_low d) = 2
              \<and> length (widths_high d) = 3 \<and> length (widths_low d) = 2"
  by (rule exI, rule conjI, rule design_5_value [OF assms]) simp

lemma design_returns:
  assumes e: "1 < er0" and fc: "0 < fc" and n: "n \<le> 6"
  shows "\<exists>d. design_stepped_lpf (LPFDesign_init er0 h0 tand0) fc n = Inr d
           \<and> int (length (Z_high d)) = max 0 ((n + 1) div 2)
           \<and> int (length (Z_low d)) = max 0 (n div 2)"
proof -
  let ?self = "LPFDesign_init er0 h0 tand0"
  note z = LPFDesign_init_sel(5) [of er0 h0 tand0]
  consider "n \<le> 0" | "n = 1" | "n = 2" | "n = 3" | "n = 4" | "n = 5" | "n = 6"
    using n by linarith
  then show ?thesis
  proof cases
    case 1
    then have "stepped_sections ?self [1..n] ([], []) = Inr ([], [])" by simp
    from design_table_sections [OF this _ _ e fc] 1 show ?thesis by simp
  next
    case 2
    from design_table_sections [OF sections_upto(1) [OF z] _ _ e fc] 2 show ?thesis by simp
  next
    case 3
    from design_table_sections [OF sections_upto(2) [OF z] _ _ e fc] 3 show ?thesis by simp
  next
    case 4
    from design_table_sections [OF sections_upto(3) [OF z] _ _ e fc] 4 show ?thesis by simp
  next
    case 5
    from design_table_sections [OF sections_upto(4) [OF z] _ _ e fc] 5 show ?thesis by simp
  next
    case 6
    from design_table_sections [OF sections_upto(5) [OF z] _ _ e fc] 6 show ?thesis by simp
  next
    case 7
    from design_table_sections [OF sections_upto(6) [OF z] _ _ e fc] 7 show ?thesis by simp
  qed
qed

lemma design_index_error:
  assumes "7 \<le> n"
  shows "design_stepped_lpf (LPFDesign_init er0 h0 tand0) fc n = Inl IndexError"
  by (simp add: design_stepped_lpf_def sections_out [OF LPFDesign_init_sel(5) assms])

text \<open>
  C2, as the code has it. \<open>design_stepped_lpf\<close> checks no order and knows no
  \<open>UnsupportedOrder\<close>. On a valid substrate (\<open>er > 1\<close>) and cutoff (\<open>fc > 0\<close>) it
  returns a design for every \<open>n \<le> 6\<close>, with \<open>(n+1) div 2\<close> high-impedance and
  \<open>n div 2\<close> low-impedance sections (none for \<open>n \<le> 0\<close>); from \<open>n = 7\<close> on it
  fails with \<open>IndexError\<close>, when the loop reads \<open>g[7]\<close>.
\<close>

theorem design_stepped_lpf_orders:
  assumes "1 < er0" "0 < fc"
  shows "(n \<le> 6 \<longrightarrow>
            (\<exists>d. design_stepped_lpf (LPFDesign_init er0 h0 tand0) fc n = Inr d
               \<and> int (length (Z_high d)) = max 0 ((n + 1) div 2)
               \<and> int (length (Z_low d)) = max 0 (n div 2)))
         \<and> (7 \<le> n \<longrightarrow>
            design_stepped_lpf (LPFDesign_init er0 h0 tand0) fc n = Inl IndexError)"
  using design_returns [OF assms] design_index_error by blast

theorem design_stepped_lpf_orders_witness:
  "(\<exists>d. design_stepped_lpf (LPFDesign_init 4.4 0.0016 0.025) 3000000000 4 = Inr d
       \<and> length (Z_high d) = 2 \<and> length (Z_low d) = 2)
   \<and> design_stepped_lpf (LPFDesign_init 4.4 0.0016 0.025) 3000000000 7 = Inl IndexError"
  using design_stepped_lpf_orders [of "4.4" 3000000000 4 "0.0016" "0.025"]
    design_stepped_lpf_orders [of "4.4" 3000000000 7 "0.0016" "0.025"]
  by simp

text \<open>C2 as the specification states it fails: order 3 returns a design, with two
  high-impedance sections and one low-impedance section.\<close>

theorem design_stepped_lpf_order_3_returns:
  "\<not> isl (design_stepped_lpf (LPFDesign_init 4.4 0.0016 0.025) 3000000000 3)"
proof -
  obtain d where "design_stepped_lpf (LPFDesign_init 4.4 0.0016 0.025) 3000000000 3 = Inr d"
    using design_returns [of "4.4" 3000000000 3 "0.0016" "0.025"] by auto
  then show ?thesis by simp
qed

section \<open>Bounds on pi and the exponential\<close>

lemma sin_quintic_bounds:
  fixes x :: real
  assumes "0 \<le> x"
  shows "x - x ^ 3 / 6 - x ^ 5 / 120 \<le> sin x" and "sin x \<le> x - x ^ 3 / 6 + x ^ 5 / 120"
proof -
  have s: "(\<Sum>m<5. sin_coeff m * x ^ m) = x - x ^ 3 / 6"
    by (simp add: eval_nat_numeral sin_coeff_Suc cos_coeff_Suc)
  have f: "inverse (fact 5) * \<bar>x\<bar> ^ 5 = x ^ 5 / 120"
    using assms by (simp add: eval_nat_numeral)
  from Maclaurin_sin_bound [of x 5] have b: "\<bar>sin x - (x - x ^ 3 / 6)\<bar> \<le> x ^ 5 / 120"
    unfolding s f .
  from b show "x - x ^ 3 / 6 - x ^ 5 / 120 \<le> sin x" by linarith
  from b show "sin x \<le> x - x ^ 3 / 6 + x ^ 5 / 120" by linarith
qed

lemma sixth_pi_upper_step:
  assumes "pi / 6 \<le> b"
  shows "pi / 6 \<le> 1 / 2 + b ^ 3 / 6 + b ^ 5 / 120"
proof -
  have x0: "0 \<le> pi / 6" by simp
  have "(pi / 6) ^ 3 \<le> b ^ 3"
    by (rule power_mono [OF assms x0])
  moreover have "(pi / 6) ^ 5 \<le> b ^ 5"
    by (rule power_mono [OF assms x0])
  moreover have "pi / 6 - (pi / 6) ^ 3 / 6 - (pi / 6) ^ 5 / 120 \<le> 1 / 2"
    using sin_quintic_bounds(1) [OF x0] by (simp only: sin_30)
  ultimately show ?thesis by linarith
qed

lemma sixth_pi_lower_step:
  assumes "0 \<le> a" "a \<le> pi / 6" "pi / 6 \<le> b"
  shows "1 / 2 + a ^ 3 / 6 - b ^ 5 / 120 \<le> pi / 6"
proof -
  have x0: "0 \<le> pi / 6" by simp
  have "a ^ 3 \<le> (pi / 6) ^ 3"
    by (rule power_mono [OF assms(2,1)])
  moreover have "(pi / 6) ^ 5 \<le> b ^ 5"
    by (rule power_mono [OF assms(3) x0])
  moreover have "1 / 2 \<le> pi / 6 - (pi / 6) ^ 3 / 6 + (pi / 6) ^ 5 / 120"
    using sin_quintic_bounds(2) [OF x0] by (simp only: sin_30)
  ultimately show ?thesis by linarith
qed

lemma pi_upper: "pi \<le> 3.147"
proof -
  have b0: "pi / 6 \<le> 2 / 3" using pi_less_4 by simp
  have b1: "pi / 6 \<le> 1101 / 2000" using sixth_pi_upper_step [OF b0] by (simp add: power_divide)
  have b2: "pi / 6 \<le> 5283 / 10000" using sixth_pi_upper_step [OF b1] by (simp add: power_divide)
  have b3: "pi / 6 \<le> 21 / 40" using sixth_pi_upper_step [OF b2] by (simp add: power_divide)
  have b4: "pi / 6 \<le> 1049 / 2000" using sixth_pi_upper_step [OF b3] by (simp add: power_divide)
  then show ?thesis by simp
qed

lemma pi_lower: "3.141 \<le> pi"
proof -
  have b: "pi / 6 \<le> 1049 / 2000" using pi_upper by simp
  have a0: "1 / 3 \<le> pi / 6" using pi_ge_two by simp
  have a1: "5058 / 10000 \<le> pi / 6" using sixth_pi_lower_step [OF _ a0 b] by (simp add: power_divide)
  have a2: "5212 / 10000 \<le> pi / 6" using sixth_pi_lower_step [OF _ a1 b] by (simp add: power_divide)
  have a3: "5232 / 10000 \<le> pi / 6" using sixth_pi_lower_step [OF _ a2 b] by (simp add: power_divide)
  have a4: "5235 / 10000 \<le> pi / 6" using sixth_pi_lower_step [OF _ a3 b] by (simp add: power_divide)
  then show ?thesis by simp
qed

lemma exp_lower_sum:
  fixes x :: real
  assumes "0 \<le> x"
  shows "(\<Sum>m<n. x ^ m / fact m) \<le> exp x"
proof -
  obtain t where "exp x = (\<Sum>m<n. x ^ m / fact m) + exp t / fact n * x ^ n"
    using Maclaurin_exp_le [of x n] by blast
  moreover have "0 \<le> exp t / fact n * x ^ n" using assms by simp
  ultimately show ?thesis by linarith
qed

lemma exp_upper_sum:
  fixes x :: real
  assumes "0 \<le> x" "x \<le> 1"
  shows "exp x \<le> (\<Sum>m<n. x ^ m / fact m) + 3 * x ^ n / fact n"
proof -
  obtain t where t: "\<bar>t\<bar> \<le> \<bar>x\<bar>"
    and e: "exp x = (\<Sum>m<n. x ^ m / fact m) + exp t / fact n * x ^ n"
    using Maclaurin_exp_le [of x n] by blast
  have "t \<le> 1" using t assms by linarith
  then have "exp t \<le> exp 1" by simp
  then have "exp t \<le> 3" using exp_le by linarith
  then have "exp t * (x ^ n / fact n) \<le> 3 * (x ^ n / fact n)"
    using assms(1) by (intro mult_right_mono) simp_all
  with e show ?thesis by simp
qed

section \<open>Numeric bounds for the width ratios\<close>

lemma exp_451: "exp (451 / 1000) \<le> (3141 / 2000 :: real)"
proof -
  have "exp (451 / 1000 :: real) \<le>
      (\<Sum>m<6. (451 / 1000) ^ m / fact m) + 3 * (451 / 1000) ^ 6 / fact 6"
    by (rule exp_upper_sum) simp_all
  also have "\<dots> \<le> 3141 / 2000"
    by (simp add: eval_nat_numeral)
  finally show ?thesis .
qed

lemma exp_239: "exp (239 / 1000) \<le> (4000 / 3147 :: real)"
proof -
  have "exp (239 / 1000 :: real) \<le>
      (\<Sum>m<5. (239 / 1000) ^ m / fact m) + 3 * (239 / 1000) ^ 5 / fact 5"
    by (rule exp_upper_sum) simp_all
  also have "\<dots> \<le> 4000 / 3147"
    by (simp add: eval_nat_numeral)
  finally show ?thesis .
qed

lemma exp_2082: "(802 / 100 :: real) \<le> exp (2082 / 1000)"
proof -
  have "(802 / 100 :: real) \<le> (\<Sum>m<12. (2082 / 1000) ^ m / fact m)"
    by (simp add: eval_nat_numeral)
  also have "\<dots> \<le> exp (2082 / 1000)"
    by (rule exp_lower_sum) simp
  finally show ?thesis .
qed


lemma w_h_low_lower: "105 / 100 \<le> w_h_low 4.4"
proof -
  have l1: "451 / 1000 \<le> ln (pi / 2)"
  proof -
    have "exp (451 / 1000) \<le> pi / 2" using exp_451 pi_lower by simp
    then show ?thesis by (subst ln_ge_iff) simp_all
  qed
  have l2: "239 / 1000 \<le> ln (4 / pi)"
  proof -
    have "4000 / 3147 \<le> 4 / pi"
      using pi_upper by (simp add: field_simps)
    then have "exp (239 / 1000) \<le> 4 / pi" using exp_239 by linarith
    then show ?thesis by (subst ln_ge_iff) simp_all
  qed
  have p2: "2000 / 3147 \<le> 2 / pi" and p1: "1000 / 3147 \<le> 1 / pi"
    using pi_upper by (simp_all add: field_simps)
  have "2000 / 3147 * (34 / 10) * (451 / 1000) \<le> 2 / pi * (34 / 10) * ln (pi / 2)"
    using p2 l1 by (intro mult_mono) simp_all
  moreover have "1000 / 3147 * (239 / 1000) \<le> 1 / pi * ln (4 / pi)"
    using p1 l2 by (intro mult_mono) simp_all
  ultimately show ?thesis
    unfolding w_h_low_def by simp
qed

lemma ratio_antimono:
  fixes E1 E2 :: real
  assumes "2 < E1\<^sup>2" "0 < E1" "E1 < E2"
  shows "8 * E2 / (E2\<^sup>2 - 2) < 8 * E1 / (E1\<^sup>2 - 2)"
proof -
  have "E1\<^sup>2 < E2\<^sup>2"
    using assms(2,3) by (intro power_strict_mono) simp_all
  then have d: "0 < E1\<^sup>2 - 2" "0 < E2\<^sup>2 - 2" using assms(1) by simp_all
  have "0 < (E2 - E1) * (E1 * E2 + 2)"
    using assms(2,3) by (intro mult_pos_pos add_pos_pos) simp_all
  then have "E2 * (E1\<^sup>2 - 2) < E1 * (E2\<^sup>2 - 2)"
    by (simp add: algebra_simps power2_eq_square)
  then have "8 * E2 * (E1\<^sup>2 - 2) < 8 * E1 * (E2\<^sup>2 - 2)" by simp
  then have "8 * E2 < 8 * E1 * (E2\<^sup>2 - 2) / (E1\<^sup>2 - 2)"
    by (rule mult_imp_less_div_pos [OF d(1)])
  then have "8 * E2 < 8 * E1 / (E1\<^sup>2 - 2) * (E2\<^sup>2 - 2)" by simp
  then show ?thesis
    by (rule mult_imp_div_pos_less [OF d(2)])
qed

lemma w_h_high_exp: "w_h_high er0 Z = 8 * exp (A_aux er0 Z) / ((exp (A_aux er0 Z))\<^sup>2 - 2)"
  by (simp add: w_h_high_def Let_def exp_double)

lemma exp_A_sq:
  assumes "44 \<le> Z" "1 < er0"
  shows "2 < (exp (A_aux er0 Z))\<^sup>2"
  using exp_2A_gt [OF A_aux_lower [OF assms]] by (simp add: exp_double)

lemma A_aux_strict_mono:
  assumes "1 < er0" "Z1 < Z2"
  shows "A_aux er0 Z1 < A_aux er0 Z2"
proof -
  have "0 < sqrt ((er0 + 1) / 2)" using assms(1) by simp
  then have "Z1 * sqrt ((er0 + 1) / 2) < Z2 * sqrt ((er0 + 1) / 2)"
    using assms(2) by simp
  then show ?thesis unfolding A_aux_def by simp
qed

lemma w_h_high_antimono:
  assumes "1 < er0" "44 \<le> Z1" "Z1 < Z2"
  shows "w_h_high er0 Z2 < w_h_high er0 Z1"
  unfolding w_h_high_exp
  by (rule ratio_antimono [OF exp_A_sq [OF assms(2,1)]])
    (simp_all add: A_aux_strict_mono [OF assms(1,3)])

lemma w_h_high_pos:
  assumes "1 < er0" "44 \<le> Z"
  shows "0 < w_h_high er0 Z"
  unfolding w_h_high_exp
  using exp_A_sq [OF assms(2,1)] by simp

lemma spec_Z_high_618_lower: "70185 / 1000 \<le> spec_Z_high 50 0.618"
proof -
  have "(14037 / 10000)\<^sup>2 \<le> 1 + 618 / 1000 * (3141 / 1000 / 2) * (50 / 50 :: real)"
    by (simp add: power2_eq_square)
  also have "\<dots> \<le> 1 + 0.618 * (pi / 2) * (50 / 50)"
    using pi_lower by simp
  finally have "14037 / 10000 \<le> sqrt (1 + 0.618 * (pi / 2) * (50 / 50))"
    by (rule real_le_rsqrt)
  then show ?thesis unfolding spec_Z_high_def by simp
qed

lemma A_aux_618_lower: "2082 / 1000 \<le> A_aux 4.4 (spec_Z_high 50 0.618)"
proof -
  have "(16431 / 10000)\<^sup>2 \<le> ((4.4 + 1) / 2 :: real)"
    by (simp add: power2_eq_square)
  then have s: "16431 / 10000 \<le> sqrt ((4.4 + 1) / 2)"
    by (rule real_le_rsqrt)
  have m: "70185 / 1000 * (16431 / 10000) \<le> spec_Z_high 50 0.618 * sqrt ((4.4 + 1) / 2)"
    using spec_Z_high_618_lower s by (intro mult_mono) simp_all
  have A: "A_aux 4.4 (spec_Z_high 50 0.618) =
             spec_Z_high 50 0.618 * sqrt ((4.4 + 1) / 2) / 60 + 289 / 1800"
    unfolding A_aux_def by simp
  have "(2082 / 1000 :: real) \<le> 70185 / 1000 * (16431 / 10000) / 60 + 289 / 1800"
    by simp
  also have "\<dots> \<le> spec_Z_high 50 0.618 * sqrt ((4.4 + 1) / 2) / 60 + 289 / 1800"
    using m by linarith
  finally show ?thesis unfolding A .
qed

lemma w_h_high_618_upper: "w_h_high 4.4 (spec_Z_high 50 0.618) \<le> 103 / 100"
proof -
  let ?E = "exp (A_aux 4.4 (spec_Z_high 50 0.618))"
  have "exp (2082 / 1000) \<le> ?E" using A_aux_618_lower by simp
  then have E: "802 / 100 \<le> ?E" using exp_2082 by linarith
  have "8 * ?E / (?E\<^sup>2 - 2) \<le> 8 * (802 / 100) / ((802 / 100)\<^sup>2 - 2)"
  proof (cases "?E = 802 / 100")
    case True
    show ?thesis by (simp only: True order_refl)
  next
    case False
    with E have "802 / 100 < ?E" by simp
    moreover have "2 < (802 / 100 :: real)\<^sup>2" by (simp add: power2_eq_square)
    moreover have "0 < (802 / 100 :: real)" by simp
    ultimately show ?thesis using ratio_antimono [of "802 / 100" ?E] by linarith
  qed
  also have "\<dots> \<le> 103 / 100" by (simp add: power2_eq_square)
  finally show ?thesis unfolding w_h_high_exp .
qed

lemma spec_Z_high_strict: "spec_Z_high 50 0.618 < spec_Z_high 50 2"
  unfolding spec_Z_high_def by simp

section \<open>Widths of the default design\<close>

text \<open>
  On the default substrate (\<open>er = 4.4\<close>) the order of the widths happens to hold: for
  every height \<open>h > 0\<close> and cutoff \<open>fc > 0\<close> the widths of the \<open>n = 5\<close> design are
  positive, and of any two sections the one with the higher impedance is narrower.
\<close>

lemma design_widths_default_substrate:
  assumes "0 < h0" "0 < fc"
  shows "\<exists>d. design_stepped_lpf (LPFDesign_init 4.4 h0 tand0) fc 5 = Inr d
           \<and> (\<forall>(Z, w) \<in> set (sections d). 0 < w)
           \<and> (\<forall>(Z1, w1) \<in> set (sections d). \<forall>(Z2, w2) \<in> set (sections d).
                 Z1 < Z2 \<longrightarrow> w2 < w1)"
proof -
  let ?Za = "spec_Z_high 50 0.618" and ?Zb = "spec_Z_high 50 2" and ?Zl = "spec_Z_low 50 1.618"
  let ?wa = "w_h_high 4.4 ?Za * h0" and ?wb = "w_h_high 4.4 ?Zb * h0"
  let ?wl = "w_h_low 4.4 * h0"
  have e: "1 < (4.4 :: real)" by simp
  have Za: "44 \<le> ?Za" using spec_Z_high_ge [of "0.618"] by simp
  have Zl: "?Zl < ?Za" using spec_Z_low_less [of "1.618"] Za by simp
  have Zab: "?Za < ?Zb" by (rule spec_Z_high_strict)
  have "w_h_high 4.4 ?Zb < w_h_high 4.4 ?Za"
    by (rule w_h_high_antimono [OF e Za Zab])
  then have wba: "?wb < ?wa" using assms(1) by simp
  have "w_h_high 4.4 ?Za < w_h_low 4.4"
    using w_h_high_618_upper w_h_low_lower by linarith
  then have wal: "?wa < ?wl" using assms(1) by simp
  have "0 < w_h_high 4.4 ?Zb"
    by (rule w_h_high_pos [OF e]) (use Za Zab in linarith)
  then have wb: "0 < ?wb" using assms(1) by simp
  show ?thesis
    apply (rule exI, rule conjI, rule design_5_value [OF e assms(2)])
    using Zl Zab wba wal wb
    apply (simp add: sections_def)
    done
qed

section \<open>The inverse formula and the missing validation\<close>

lemma w_h_low_upper: "w_h_low 4.4 \<le> 14 / 10"
proof -
  have l1: "ln (pi / 2) \<le> 5735 / 10000"
    using ln_le_minus_one [of "pi / 2"] pi_upper by simp
  have "4 / pi \<le> 4000 / 3141" using pi_lower by (simp add: field_simps)
  then have l2: "ln (4 / pi) \<le> 859 / 3141"
    using ln_le_minus_one [of "4 / pi"] by simp
  have p2: "2 / pi \<le> 2000 / 3141" and p1: "1 / pi \<le> 1000 / 3141"
    using pi_lower by (simp_all add: field_simps)
  have l1p: "0 \<le> ln (pi / 2)" using pi_ge_two by simp
  have l2p: "0 \<le> ln (4 / pi)" using pi_less_4 by simp
  have "2 / pi * (34 / 10) * ln (pi / 2) \<le> 2000 / 3141 * (34 / 10) * (5735 / 10000)"
    using p2 l1 l1p by (intro mult_mono) simp_all
  moreover have "1 / pi * ln (4 / pi) \<le> 1000 / 3141 * (859 / 3141)"
    using p1 l2 l2p by (intro mult_mono) simp_all
  ultimately show ?thesis
    unfolding w_h_low_def by simp
qed

lemma Z0_5mm_less: "Z0_formula (eff_er_formula 4.4 0.0016 0.005) 0.0016 0.005 < 44"
proof -
  have r: "(0.005 / 0.0016 :: real) = 3.125" by simp
  have b: "(1 + 12 * 0.0016 / 0.005 :: real) = (2.2)\<^sup>2" by (simp add: power2_eq_square)
  have p: "(1 + 12 * 0.0016 / 0.005 :: real) powr (- 0.5) = 1 / 2.2"
    by (subst rsqrt_powr) (simp_all only: b real_sqrt_abs, simp_all)
  have e: "eff_er_formula 4.4 0.0016 0.005 = 191 / 55"
    unfolding eff_er_formula_def p by simp
  have "(1.86)\<^sup>2 \<le> (191 / 55 :: real)" by (simp add: power2_eq_square)
  then have s: "1.86 \<le> sqrt (191 / 55)" by (rule real_le_rsqrt)
  have "exp 1 \<le> (3.125 + 1.444 :: real)" using exp_le by simp
  then have l: "1 \<le> ln (3.125 + 1.444 :: real)" by (subst ln_ge_iff) simp_all
  have d: "1.86 * 5.185 \<le> sqrt (191 / 55) * (3.125 + 1.393 + 0.667 * ln (3.125 + 1.444))"
    using s l by (intro mult_mono) simp_all
  have "120 * pi / (sqrt (191 / 55) * (3.125 + 1.393 + 0.667 * ln (3.125 + 1.444)))
          \<le> 120 * 3.147 / (1.86 * 5.185)"
    using pi_upper d by (intro frac_le) simp_all
  also have "\<dots> < 44" by simp
  finally show ?thesis
    unfolding Z0_formula_def e r by simp
qed


lemma calc_microstrip_width_ignores_target:
  assumes "Z1 < 44" "Z2 < 44"
  shows "calc_microstrip_width self Z1 = calc_microstrip_width self Z2"
  using assms by (simp add: calc_microstrip_width_def)

text \<open>
  C1 at the width 5 mm that \<open>question_7\<close> itself analyses, on the default substrate:
  the forward formula gives an impedance below 44 ohm, and the inverse then returns its
  constant \<open>w_h_low 4.4 * h\<close>, which is less than 2.5 mm, not 5 mm.
\<close>

theorem round_trip_5mm_lost:
  "\<exists>Z e self'.
     calc_microstrip_params
       \<lparr>er = 4.4, h = 0.0016, tand = 0.025, c = constants_c, f = [], eff_er = None,
        MicrostripAnalysis.Z0 = None\<rparr> 0.005 = Inr ((Z, e), self')
     \<and> Z < 44
     \<and> calc_microstrip_width (LPFDesign_init 4.4 0.0016 0.025) Z = Inr (w_h_low 4.4 * 0.0016)
     \<and> w_h_low 4.4 * 0.0016 < 0.0025"
proof -
  let ?self = "\<lparr>er = 4.4, h = 0.0016, tand = 0.025, c = constants_c, f = [], eff_er = None,
        MicrostripAnalysis.Z0 = None\<rparr>"
  let ?Z = "Z0_formula (eff_er_formula 4.4 0.0016 0.005) 0.0016 0.005"
  have call: "calc_microstrip_params ?self 0.005 =
      Inr ((?Z, eff_er_formula 4.4 0.0016 0.005),
           ?self\<lparr>eff_er := Some (eff_er_formula 4.4 0.0016 0.005),
                  MicrostripAnalysis.Z0 := Some ?Z\<rparr>)"
    using calc_microstrip_params_domain [of "0.005" ?self] by simp
  have w: "calc_microstrip_width (LPFDesign_init 4.4 0.0016 0.025) ?Z
             = Inr (w_h_low 4.4 * 0.0016)"
    using width_low_branch [OF Z0_5mm_less, of "LPFDesign_init 4.4 0.0016 0.025"]
    by (simp add: LPFDesign_init_sel)
  have "w_h_low 4.4 * 0.0016 < 0.0025" using w_h_low_upper by simp
  with call Z0_5mm_less w show ?thesis by blast
qed

text \<open>
  C3 as the specification states it fails: on a substrate of height zero the inverse
  formula returns the width 0 and no error.
\<close>

theorem calc_microstrip_width_zero_height:
  "calc_microstrip_width (LPFDesign_init 4.4 0 0.025) 30 = Inr 0"
  by (simp add: calc_microstrip_width_def LPFDesign_init_sel)

text \<open>
  C3, as the code has it. No formula validates its geometry, and no \<open>InvalidGeometry\<close>
  exists. A zero width or height makes \<open>calc_microstrip_params\<close>, and
  \<open>calc_s_parameters\<close> through it, fail with the \<open>ZeroDivisionError\<close> of the formula's
  own division. \<open>calc_microstrip_width\<close> checks nothing: below 44 ohm, or on a
  substrate with \<open>er > 1\<close>, it returns \<open>w_h * h\<close> for every height, zero and negative
  ones too.
\<close>

theorem no_geometry_validation:
  "(h self = 0 \<or> w = 0 \<longrightarrow>
      calc_microstrip_params self w = Inl ZeroDivisionError
      \<and> calc_s_parameters self w length0 = Inl ZeroDivisionError)
   \<and> (Z < 44 \<or> 1 < er lpf \<longrightarrow>
      calc_microstrip_width lpf Z =
        Inr ((if Z < 44 then w_h_low (er lpf) else w_h_high (er lpf) Z) * h lpf))"
proof -
  have a: "calc_microstrip_params self w = Inl ZeroDivisionError" if "h self = 0 \<or> w = 0"
    using that by (auto simp add: calc_microstrip_params_def)
  then have b: "calc_s_parameters self w length0 = Inl ZeroDivisionError"
    if "h self = 0 \<or> w = 0"
    using that by (simp add: calc_s_parameters_def)
  have c: "calc_microstrip_width lpf Z =
        Inr ((if Z < 44 then w_h_low (er lpf) else w_h_high (er lpf) Z) * h lpf)"
    if "Z < 44 \<or> 1 < er lpf"
  proof (cases "Z < 44")
    case True
    then show ?thesis by (simp add: width_low_branch)
  next
    case False
    with that have "44 \<le> Z" "1 < er lpf" by auto
    from width_high_branch [OF this] False show ?thesis by simp
  qed
  from a b c show ?thesis by blast
qed

theorem no_geometry_validation_witness:
  "calc_microstrip_params
       \<lparr>er = 4.4, h = 0, tand = 0.025, c = constants_c, f = [], eff_er = None,
        MicrostripAnalysis.Z0 = None\<rparr> 0.002 = Inl ZeroDivisionError
   \<and> calc_s_parameters
       \<lparr>er = 4.4, h = 0, tand = 0.025, c = constants_c, f = [], eff_er = None,
        MicrostripAnalysis.Z0 = None\<rparr> 0.002 0.01 = Inl ZeroDivisionError
   \<and> calc_microstrip_width (LPFDesign_init 4.4 (- 0.0016) 0.025) 70
        = Inr (w_h_high 4.4 70 * (- 0.0016))"
  using no_geometry_validation [of
      "\<lparr>er = 4.4, h = 0, tand = 0.025, c = constants_c, f = [], eff_er = None,
        MicrostripAnalysis.Z0 = None\<rparr>" "0.002" "0.01" 70
      "LPFDesign_init 4.4 (- 0.0016) 0.025"]
  by (simp add: LPFDesign_init_sel)

section \<open>Properties of the resonator model\<close>

lemma linspace_returns: "0 \<le> num \<Longrightarrow> \<exists>fs. linspace (start, stop, num) = Inr fs"
  by (simp add: linspace_def)

lemma resonator_eff_er_pos:
  fixes w h0 er0 :: real
  assumes "0 < w" "0 < h0" "1 < er0"
  shows "0 < (er0 + 1) / 2 + (er0 - 1) / 2 * (1 + 12 * h0 / w) powr (- 0.5)"
proof -
  have "0 \<le> (er0 - 1) / 2 * (1 + 12 * h0 / w) powr (- 0.5)"
    using assms(3) by (intro mult_nonneg_nonneg) simp_all
  moreover have "0 < (er0 + 1) / 2" using assms(3) by simp
  ultimately show ?thesis by (rule add_pos_nonneg [rotated])
qed

lemma calc_resonator_length_domain:
  assumes "0 < w" "0 < h self" "1 < er self" "0 < f_res"
  shows "calc_resonator_length self f_res w =
           Inr (c self / (f_res * sqrt ((er self + 1) / 2
                   + (er self - 1) / 2 * (1 + 12 * h self / w) powr (- 0.5))) / 4,
                (er self + 1) / 2 + (er self - 1) / 2 * (1 + 12 * h self / w) powr (- 0.5))"
proof -
  let ?e = "(er self + 1) / 2 + (er self - 1) / 2 * (1 + 12 * h self / w) powr (- 0.5)"
  have e: "0 < ?e" by (rule resonator_eff_er_pos [OF assms(1,2,3)])
  have b: "0 < 1 + 12 * h self / w" by (rule base_pos [OF assms(1,2)])
  have g: "w \<noteq> 0" "1 + 12 * h self / w \<noteq> 0" "\<not> 1 + 12 * h self / w < 0"
    "\<not> ?e < 0" "f_res * sqrt ?e \<noteq> 0"
    using assms(1,4) b e by simp_all
  show ?thesis
    unfolding calc_resonator_length_def Let_def
    by (simp only: g if_False)
qed

lemma calc_resonator_s_params_value:
  assumes "0 < w" "0 < h0" "1 < er0" and fs: "linspace f_range = Inr fs"
  shows "calc_resonator_s_params (ResonatorAnalysis_init er0 h0 tand0) d g w f_range =
           Inr (fs,
                map (resonator_S11 5000000000) fs,
                map (resonator_S21 (0.1 * exp (- g / h0)) 5000000000) fs,
                5000000000,
                constants_c / (5000000000 * sqrt ((er0 + 1) / 2
                   + (er0 - 1) / 2 * (1 + 12 * h0 / w) powr (- 0.5))) / 4)"
proof -
  let ?self = "ResonatorAnalysis_init er0 h0 tand0"
  let ?e = "(er0 + 1) / 2 + (er0 - 1) / 2 * (1 + 12 * h0 / w) powr (- 0.5)"
  have sel: "er ?self = er0" "h ?self = h0" "c ?self = constants_c"
    by (simp_all add: ResonatorAnalysis_init_def)
  have e: "0 < ?e" by (rule resonator_eff_er_pos [OF assms(1,2,3)])
  then have s: "0 < sqrt ?e" by simp
  have len: "calc_resonator_length ?self 5000000000 w =
               Inr (constants_c / (5000000000 * sqrt ?e) / 4, ?e)"
    using calc_resonator_length_domain [of w ?self 5000000000] assms(1,2,3)
    by (simp add: sel)
  have c0: "constants_c \<noteq> 0" by (simp add: constants_c_def)
  have den: "4 * (constants_c / (5000000000 * sqrt ?e) / 4) * sqrt ?e = constants_c / 5000000000"
    using s by simp
  have fr: "constants_c / (constants_c / 5000000000) = 5000000000"
    using c0 by simp
  show ?thesis
    unfolding calc_resonator_s_params_def fs len Let_def sel
    using assms(2) c0 e by (simp add: den fr)
qed

lemma calc_resonator_length_value:
  assumes "calc_resonator_length self f_res w = Inr (len, e)"
  shows "e = (er self + 1) / 2 + (er self - 1) / 2 * (1 + 12 * h self / w) powr (- 0.5)
         \<and> len = c self / (f_res * sqrt e) / 4 \<and> f_res * sqrt e \<noteq> 0"
  using assms unfolding calc_resonator_length_def Let_def
  by (auto split: if_splits)

text \<open>In exact arithmetic the quotient cancels to the nominal; the doubles of the program
  do not always follow, as the section on rounding shows.\<close>

lemma calc_resonator_s_params_f_res:
  assumes "calc_resonator_s_params self d g w f_range = Inr (fs, S11, S21, f_res, len)"
  shows "f_res = 5000000000
         \<and> len = c self / (5000000000 * sqrt ((er self + 1) / 2
                   + (er self - 1) / 2 * (1 + 12 * h self / w) powr (- 0.5))) / 4"
proof -
  from assms obtain e where l: "calc_resonator_length self 5000000000 w = Inr (len, e)"
    and n: "4 * len * sqrt e \<noteq> 0" and fr: "f_res = c self / (4 * len * sqrt e)"
    unfolding calc_resonator_s_params_def Let_def
    by (auto split: sum.splits if_splits prod.splits)
  from calc_resonator_length_value [OF l]
  have e: "e = (er self + 1) / 2 + (er self - 1) / 2 * (1 + 12 * h self / w) powr (- 0.5)"
    and len: "len = c self / (5000000000 * sqrt e) / 4" and s: "sqrt e \<noteq> 0"
    by simp_all
  have d: "4 * len * sqrt e = c self / 5000000000"
    unfolding len using s by simp
  from n have c0: "c self \<noteq> 0" unfolding d by simp
  have "f_res = c self / (c self / 5000000000)" unfolding fr d by (rule refl)
  then have "f_res = 5000000000" using c0 by simp
  with len e show ?thesis by simp
qed


lemma resonator_on_resonance:
  "resonator_S11 f_res f_res = 0" "resonator_S21 k f_res f_res = of_real k"
  by (simp_all add: resonator_S11_def resonator_S21_def delta_def)

lemma calc_resonator_s_params_samples:
  assumes "calc_resonator_s_params self d g w f_range = Inr (fs, S11, S21, f_res, len)"
  shows "S11 = map (resonator_S11 f_res) fs
         \<and> S21 = map (resonator_S21 (0.1 * exp (- g / h self)) f_res) fs"
  using assms unfolding calc_resonator_s_params_def Let_def
  by (auto split: sum.splits if_splits prod.splits)

text \<open>
  C8. At every sample of the sweep that equals the returned resonant frequency
  (\<open>\<Delta> = 0\<close>), \<open>calc_resonator_s_params\<close> gives \<open>S11 = 0\<close> and \<open>S21 = k\<close> exactly,
  with \<open>k = 0.1 exp(-g/h)\<close>.
\<close>

theorem on_resonance_samples:
  assumes "calc_resonator_s_params self d g w f_range = Inr (fs, S11, S21, f_res, len)"
    and "i < length fs" and "fs ! i = f_res"
  shows "S11 ! i = 0 \<and> S21 ! i = of_real (0.1 * exp (- g / h self))"
  using calc_resonator_s_params_samples [OF assms(1)] assms(2,3)
  by (simp add: resonator_on_resonance)


lemma linspace_3: "linspace (4000000000, 6000000000, 3) = Inr [4000000000, 5000000000, 6000000000]"
  by (simp add: linspace_def upt_rec)

theorem on_resonance_samples_witness:
  "\<exists>fs S11 S21 f_res len.
     calc_resonator_s_params (ResonatorAnalysis_init 4.4 0.0016 0.025) 0.006 0.00005 0.001
         (4000000000, 6000000000, 3) = Inr (fs, S11, S21, f_res, len)
     \<and> 1 < length fs \<and> fs ! 1 = f_res
     \<and> S11 ! 1 = 0
     \<and> S21 ! 1 = of_real (0.1 * exp (- 0.00005 / h (ResonatorAnalysis_init 4.4 0.0016 0.025)))"
proof -
  let ?self = "ResonatorAnalysis_init 4.4 0.0016 0.025"
  let ?fs = "[4000000000, 5000000000, 6000000000 :: real]"
  have call: "calc_resonator_s_params ?self 0.006 0.00005 0.001 (4000000000, 6000000000, 3) =
      Inr (?fs, map (resonator_S11 5000000000) ?fs,
           map (resonator_S21 (0.1 * exp (- 0.00005 / 0.0016)) 5000000000) ?fs,
           5000000000,
           constants_c / (5000000000 * sqrt ((4.4 + 1) / 2
                   + (4.4 - 1) / 2 * (1 + 12 * 0.0016 / 0.001) powr (- 0.5))) / 4)"
    by (rule calc_resonator_s_params_value [OF _ _ _ linspace_3]) simp_all
  have i: "1 < length ?fs" "?fs ! 1 = 5000000000" by simp_all
  from on_resonance_samples [OF call i] call i show ?thesis by blast
qed

section \<open>Properties of the transmission-line response\<close>



lemma gamma_lossless:
  assumes "alpha e tand0 c0 fq = 0"
  shows "exp (- gamma e tand0 c0 fq * of_real length0) = cis (- (beta e c0 fq * length0))"
  unfolding gamma_def assms cis_conv_exp by (simp add: mult.assoc)




lemma alpha_zero_only_at_dc:
  assumes "0 \<le> fq" "0 \<le> e" "0 \<le> tand0" "0 < c0" "alpha e tand0 c0 fq = 0"
  shows "fq = 0"
proof -
  have d: "0 \<le> alpha_d e tand0 c0 fq"
    unfolding alpha_d_def using assms(1,2,3,4)
    by (intro divide_nonneg_pos mult_nonneg_nonneg) simp_all
  have c: "0 \<le> alpha_c fq" unfolding alpha_c_def using assms(1) by simp
  from d c assms(5) have "alpha_c fq = 0" unfolding alpha_def by linarith
  then show ?thesis unfolding alpha_c_def by simp
qed










section \<open>The width order depends on the permittivity\<close>

text \<open>
  The order that holds at \<open>er = 4.4\<close> is lost on a substrate with \<open>er = 2\<close>: the
  ratio below 44 ohm is at most 0.5 there, the ratio of the 70 ohm section at least 1.9.
\<close>

lemma w_h_low_2_upper: "w_h_low 2 \<le> 1 / 2"
proof -
  have l1: "ln (pi / 2) \<le> 5735 / 10000"
    using ln_le_minus_one [of "pi / 2"] pi_upper by simp
  have "4 / pi \<le> 4000 / 3141" using pi_lower by (simp add: field_simps)
  then have l2: "ln (4 / pi) \<le> 859 / 3141"
    using ln_le_minus_one [of "4 / pi"] by simp
  have p2: "2 / pi \<le> 2000 / 3141" and p1: "1 / pi \<le> 1000 / 3141"
    using pi_lower by (simp_all add: field_simps)
  have l1p: "0 \<le> ln (pi / 2)" using pi_ge_two by simp
  have l2p: "0 \<le> ln (4 / pi)" using pi_less_4 by simp
  have "2 / pi * ln (pi / 2) \<le> 2000 / 3141 * (5735 / 10000)"
    using p2 l1 l1p by (intro mult_mono) simp_all
  moreover have "1 / pi * ln (4 / pi) \<le> 1000 / 3141 * (859 / 3141)"
    using p1 l2 l2p by (intro mult_mono) simp_all
  ultimately show ?thesis
    unfolding w_h_low_def by simp
qed

lemma spec_Z_high_618_upper: "spec_Z_high 50 0.618 \<le> 70225 / 1000"
proof -
  have "1 + 0.618 * (pi / 2) * (50 / 50) \<le> 1 + 618 / 1000 * (3147 / 1000 / 2) * (50 / 50 :: real)"
    using pi_upper by simp
  also have "\<dots> \<le> (14045 / 10000)\<^sup>2" by (simp add: power2_eq_square)
  finally have "sqrt (1 + 0.618 * (pi / 2) * (50 / 50)) \<le> 14045 / 10000"
    by (intro real_le_lsqrt) simp_all
  then show ?thesis unfolding spec_Z_high_def by simp
qed

lemma exp_1529: "exp (1529 / 1000) \<le> (462 / 100 :: real)"
proof -
  have "exp (1529 / 2000 :: real) \<le>
      (\<Sum>m<8. (1529 / 2000) ^ m / fact m) + 3 * (1529 / 2000) ^ 8 / fact 8"
    by (rule exp_upper_sum) simp_all
  also have "\<dots> \<le> 2149 / 1000"
    by (simp add: eval_nat_numeral)
  finally have h: "exp (1529 / 2000 :: real) \<le> 2149 / 1000" .
  have "exp (1529 / 1000 :: real) = (exp (1529 / 2000))\<^sup>2"
    by (simp add: exp_double [symmetric])
  also have "\<dots> \<le> (2149 / 1000)\<^sup>2"
    using h by (intro power_mono) simp_all
  also have "\<dots> \<le> 462 / 100" by (simp add: power2_eq_square)
  finally show ?thesis .
qed

lemma A_aux_2_upper: "A_aux 2 (spec_Z_high 50 0.618) \<le> 1529 / 1000"
proof -
  have "((2 + 1) / 2 :: real) \<le> (12248 / 10000)\<^sup>2" by (simp add: power2_eq_square)
  then have s: "sqrt ((2 + 1) / 2) \<le> 12248 / 10000"
    by (intro real_le_lsqrt) simp_all
  have z: "0 \<le> spec_Z_high 50 0.618" using spec_Z_high_ge [of "0.618"] by simp
  have m: "spec_Z_high 50 0.618 * sqrt ((2 + 1) / 2) \<le> 70225 / 1000 * (12248 / 10000)"
    using spec_Z_high_618_upper s z by (intro mult_mono) simp_all
  have A: "A_aux 2 (spec_Z_high 50 0.618) =
             spec_Z_high 50 0.618 * sqrt ((2 + 1) / 2) / 60 + 19 / 200"
    unfolding A_aux_def by simp
  have "spec_Z_high 50 0.618 * sqrt ((2 + 1) / 2) / 60 + 19 / 200
          \<le> 70225 / 1000 * (12248 / 10000) / 60 + 19 / 200"
    using m by linarith
  also have "\<dots> \<le> (1529 / 1000 :: real)" by simp
  finally show ?thesis unfolding A .
qed

lemma w_h_high_2_lower: "19 / 10 \<le> w_h_high 2 (spec_Z_high 50 0.618)"
proof -
  let ?E = "exp (A_aux 2 (spec_Z_high 50 0.618))"
  have "?E \<le> exp (1529 / 1000)" using A_aux_2_upper by simp
  then have E: "?E \<le> 462 / 100" using exp_1529 by linarith
  have sq: "2 < ?E\<^sup>2"
    by (rule exp_A_sq) (use spec_Z_high_ge [of "0.618"] in simp_all)
  have "(19 / 10 :: real) \<le> 8 * (462 / 100) / ((462 / 100)\<^sup>2 - 2)"
    by (simp add: power2_eq_square)
  also have "\<dots> \<le> 8 * ?E / (?E\<^sup>2 - 2)"
  proof (cases "?E = 462 / 100")
    case True
    show ?thesis by (simp only: True order_refl)
  next
    case False
    with E have "?E < 462 / 100" by simp
    from ratio_antimono [OF sq _ this] show ?thesis by simp
  qed
  finally show ?thesis unfolding w_h_high_exp .
qed

lemma widths_inverted_at_er_2: "w_h_low 2 < w_h_high 2 (spec_Z_high 50 0.618)"
  using w_h_low_2_upper w_h_high_2_lower by linarith

text \<open>
  C4 on a substrate with \<open>er = 2\<close> (height 1.6 mm, \<open>fc = 3e9\<close>, \<open>n = 5\<close>): the design
  comes back, its 27 ohm sections have a lower impedance than its 70 ohm sections, and
  they are narrower, not wider. The width below 44 ohm is the constant of
  \<open>calc_microstrip_width\<close> that does not read the impedance.
\<close>

theorem design_widths_inverted_er_2:
  "design_stepped_lpf (LPFDesign_init 2 0.0016 0.025) 3000000000 5 =
      Inr \<lparr>Z_high = [spec_Z_high 50 0.618, spec_Z_high 50 2, spec_Z_high 50 0.618],
           Z_low = [spec_Z_low 50 1.618, spec_Z_low 50 1.618],
           widths_high = [w_h_high 2 (spec_Z_high 50 0.618) * 0.0016,
             w_h_high 2 (spec_Z_high 50 2) * 0.0016,
             w_h_high 2 (spec_Z_high 50 0.618) * 0.0016],
           widths_low = [w_h_low 2 * 0.0016, w_h_low 2 * 0.0016],
           section_length = constants_c / (3000000000 * sqrt 2) / 8,
           lambda_g = constants_c / (3000000000 * sqrt 2)\<rparr>
   \<and> spec_Z_low 50 1.618 < spec_Z_high 50 0.618
   \<and> w_h_low 2 * 0.0016 < w_h_high 2 (spec_Z_high 50 0.618) * 0.0016"
proof -
  have d: "design_stepped_lpf (LPFDesign_init 2 0.0016 0.025) 3000000000 5 =
      Inr \<lparr>Z_high = [spec_Z_high 50 0.618, spec_Z_high 50 2, spec_Z_high 50 0.618],
           Z_low = [spec_Z_low 50 1.618, spec_Z_low 50 1.618],
           widths_high = [w_h_high 2 (spec_Z_high 50 0.618) * 0.0016,
             w_h_high 2 (spec_Z_high 50 2) * 0.0016,
             w_h_high 2 (spec_Z_high 50 0.618) * 0.0016],
           widths_low = [w_h_low 2 * 0.0016, w_h_low 2 * 0.0016],
           section_length = constants_c / (3000000000 * sqrt 2) / 8,
           lambda_g = constants_c / (3000000000 * sqrt 2)\<rparr>"
    by (rule design_5_value) simp_all
  have z: "spec_Z_low 50 1.618 < spec_Z_high 50 0.618"
    using spec_Z_low_less [of "1.618"] spec_Z_high_ge [of "0.618"] by simp
  have w: "w_h_low 2 * 0.0016 < w_h_high 2 (spec_Z_high 50 0.618) * 0.0016"
    using widths_inverted_at_er_2 by simp
  from d z w show ?thesis by blast
qed

section \<open>The prototype table\<close>

lemma sin_tenth_pi_lower: "3088 / 10000 \<le> sin (pi / 10)"
proof -
  have x0: "0 \<le> pi / 10" by simp
  have lo: "3141 / 10000 \<le> pi / 10" using pi_lower by simp
  have up: "pi / 10 \<le> 3147 / 10000" using pi_upper by simp
  have "(pi / 10) ^ 3 \<le> (3147 / 10000) ^ 3" by (rule power_mono [OF up x0])
  moreover have "(pi / 10) ^ 5 \<le> (3147 / 10000) ^ 5" by (rule power_mono [OF up x0])
  moreover have "(3088 / 10000 :: real)
      \<le> 3141 / 10000 - (3147 / 10000) ^ 3 / 6 - (3147 / 10000) ^ 5 / 120"
    by (simp add: power_divide)
  ultimately have "3088 / 10000 \<le> pi / 10 - (pi / 10) ^ 3 / 6 - (pi / 10) ^ 5 / 120"
    using lo by linarith
  with sin_quintic_bounds(1) [OF x0] show ?thesis by linarith
qed

lemma coth_bounds:
  fixes x :: real
  assumes "0 < x" "x < 2"
  shows "1 < cosh x / sinh x" and "cosh x / sinh x \<le> 1 + 1 / (x - x * x / 2)"
proof -
  have s: "0 < sinh x" using assms by simp
  show "1 < cosh x / sinh x" using s sinh_less_cosh_real [of x] by simp
  have e: "cosh x = sinh x + exp (- x)"
    by (simp add: cosh_field_def sinh_field_def field_simps)
  have y: "1 + x \<le> exp x" by (rule exp_ge_add_one_self)
  then have "0 < exp x" "1 / exp x \<le> 1 / (1 + x)"
    using assms by (simp_all add: frac_le)
  then have m: "exp (- x) \<le> 1 / (1 + x)" by (simp add: exp_minus inverse_eq_divide)
  have "1 / (1 + x) \<le> 1 - x + x * x"
  proof -
    have "1 \<le> (1 - x + x * x) * (1 + x)" using assms by (simp add: algebra_simps)
    then show ?thesis using assms by (simp add: pos_divide_le_eq)
  qed
  with m have m': "exp (- x) \<le> 1 - x + x * x" by linarith
  have "sinh x = (exp x - exp (- x)) / 2" by (simp add: sinh_field_def)
  moreover have "1 + x \<le> a \<Longrightarrow> b \<le> 1 - x + q \<Longrightarrow> x - q / 2 \<le> (a - b) / 2"
    for a b q :: real by (simp add: field_simps)
  ultimately have sx: "x - x * x / 2 \<le> sinh x" using y m' by metis
  have p: "0 < x - x * x / 2"
  proof -
    have "0 < x * (1 - x / 2)" using assms by (intro mult_pos_pos) simp_all
    then show ?thesis by (simp add: algebra_simps)
  qed
  have e1: "exp (- x) \<le> 1" using assms by simp
  have "cosh x / sinh x = 1 + exp (- x) / sinh x"
    unfolding e using s by (simp add: field_simps)
  also have "\<dots> \<le> 1 + 1 / (x - x * x / 2)"
    using frac_le [OF _ e1 p sx] by simp
  finally show "cosh x / sinh x \<le> 1 + 1 / (x - x * x / 2)" .
qed

lemma chebyshev_gamma_5_bounds:
  shows "0 < chebyshev_gamma 5 0.1" and "chebyshev_gamma 5 0.1 < 55 / 100"
proof -
  let ?x = "0.1 / 17.37 :: real"
  let ?C = "cosh ?x / sinh ?x"
  let ?t = "exp (ln ?C / 10)"
  have C1: "1 < ?C" by (rule coth_bounds(1)) simp_all
  have "?C \<le> 1 + 1 / (?x - ?x * ?x / 2)" by (rule coth_bounds(2)) simp_all
  also have "\<dots> < (168 / 100) ^ 10" by (simp add: power_divide)
  finally have C2: "?C < (168 / 100) ^ 10" .
  have "?t ^ 10 = exp (ln ?C)"
    by (simp add: exp_of_nat_mult [symmetric])
  also have "\<dots> = ?C" using C1 by simp
  finally have t10: "?t ^ 10 = ?C" .
  have t1: "1 < ?t" using C1 by simp
  have t2: "?t < 168 / 100"
  proof (rule power_less_imp_less_base)
    show "?t ^ 10 < (168 / 100) ^ 10" unfolding t10 by (rule C2)
  qed simp
  have g: "2 * chebyshev_gamma 5 0.1 = ?t - 1 / ?t"
    by (simp add: chebyshev_gamma_def sinh_field_def exp_minus inverse_eq_divide)
  have "1 / (168 / 100) < 1 / ?t"
    using t1 t2 by (intro divide_strict_left_mono) simp_all
  then have i: "100 / 168 < 1 / ?t" by simp
  have j: "1 / ?t < 1" using t1 by simp
  show "0 < chebyshev_gamma 5 0.1" using g t1 j by linarith
  show "chebyshev_gamma 5 0.1 < 55 / 100" using g t2 i by linarith
qed

lemma chebyshev_g1_gt_1: "1 < chebyshev_g 5 0.1 1"
proof -
  have a: "chebyshev_a 5 (Suc 0) = sin (pi / 10)" by (simp add: chebyshev_a_def)
  have "chebyshev_gamma 5 0.1 < 2 * sin (pi / 10)"
    using chebyshev_gamma_5_bounds(2) sin_tenth_pi_lower by linarith
  then have "1 < 2 * sin (pi / 10) / chebyshev_gamma 5 0.1"
    using chebyshev_gamma_5_bounds(1) by simp
  then show ?thesis by (simp add: a)
qed


lemma g_table_not_chebyshev: "g_table ! 1 < chebyshev_g 5 0.1 1"
  using chebyshev_g1_gt_1 by (simp add: g_table_def)

text \<open>
  C6 on the call \<open>design_stepped_lpf(fc=3e9, n=5)\<close> of the default object. The design
  comes back with three high-impedance and two low-impedance sections by the alternation,
  computed from the literals 0.618, 1.618 and 2 of the table \<open>g\<close>. Its first element is
  below 1; the first element of the 0.1 dB Chebyshev prototype of order 5, which the comment
  over the table names, is above 1 (\<open>g_table_not_chebyshev\<close>).
\<close>

theorem design_default_prototype_literals:
  "design_stepped_lpf (LPFDesign_init 4.4 0.0016 0.025) 3000000000 5 =
      Inr \<lparr>Z_high = [spec_Z_high 50 0.618, spec_Z_high 50 2, spec_Z_high 50 0.618],
           Z_low = [spec_Z_low 50 1.618, spec_Z_low 50 1.618],
           widths_high = [w_h_high 4.4 (spec_Z_high 50 0.618) * 0.0016,
             w_h_high 4.4 (spec_Z_high 50 2) * 0.0016,
             w_h_high 4.4 (spec_Z_high 50 0.618) * 0.0016],
           widths_low = [w_h_low 4.4 * 0.0016, w_h_low 4.4 * 0.0016],
           section_length = constants_c / (3000000000 * sqrt 4.4) / 8,
           lambda_g = constants_c / (3000000000 * sqrt 4.4)\<rparr>
   \<and> g_table = [1, 0.618, 1.618, 2, 1.618, 0.618, 1]
   \<and> g_table ! 1 < 1"
proof -
  have d: "design_stepped_lpf (LPFDesign_init 4.4 0.0016 0.025) 3000000000 5 =
      Inr \<lparr>Z_high = [spec_Z_high 50 0.618, spec_Z_high 50 2, spec_Z_high 50 0.618],
           Z_low = [spec_Z_low 50 1.618, spec_Z_low 50 1.618],
           widths_high = [w_h_high 4.4 (spec_Z_high 50 0.618) * 0.0016,
             w_h_high 4.4 (spec_Z_high 50 2) * 0.0016,
             w_h_high 4.4 (spec_Z_high 50 0.618) * 0.0016],
           widths_low = [w_h_low 4.4 * 0.0016, w_h_low 4.4 * 0.0016],
           section_length = constants_c / (3000000000 * sqrt 4.4) / 8,
           lambda_g = constants_c / (3000000000 * sqrt 4.4)\<rparr>"
    by (rule design_5_value) simp_all
  have g: "g_table = [1, 0.618, 1.618, 2, 1.618, 0.618, 1]" "g_table ! 1 < 1"
    by (simp_all add: g_table_def)
  from d g show ?thesis by blast
qed

section \<open>Rounding in the resonant frequency\<close>

lemma round_even_near:
  assumes "\<bar>r - of_int m\<bar> < 1 / 2"
  shows "round_even r = m"
proof (cases "of_int m \<le> r")
  case True
  have "\<lfloor>r\<rfloor> = m"
  proof (rule floor_unique)
    show "of_int m \<le> r" by (rule True)
    show "r < of_int m + 1" using assms by linarith
  qed
  with True assms show ?thesis by (simp add: round_even_def)
next
  case False
  have l: "of_int m - 1 \<le> r" using assms by linarith
  have f: "\<lfloor>r\<rfloor> = m - 1"
  proof (rule floor_unique)
    show "of_int (m - 1) \<le> r" using l by simp
    show "r < of_int (m - 1) + 1" using False by simp
  qed
  have "1 / 2 < r - (of_int m - 1)" using False assms by linarith
  then have "1 / 2 < r - of_int (m - 1)" by simp
  with f show ?thesis by (simp add: round_even_def)
qed

lemma fl_eqI:
  assumes u: "u = 2 powr of_int j"
    and lo: "2 ^ 52 * u \<le> x" and hi: "x < 2 ^ 53 * u"
    and m: "\<bar>x / u - of_int m\<bar> < 1 / 2"
  shows "fl x = of_int m * u"
proof -
  have u0: "0 < u" unfolding u by simp
  have "0 < 2 ^ 52 * u" using u0 by simp
  with lo have x0: "0 < x" by linarith
  have a: "2 powr (of_int j + 52) = 2 ^ 52 * u"
    unfolding u by (simp add: powr_add mult.commute)
  have b: "2 powr (of_int j + 53) = 2 ^ 53 * u"
    unfolding u by (simp add: powr_add mult.commute)
  have "of_int (j + 52) \<le> log 2 x"
    using lo x0 unfolding a [symmetric] by (simp add: le_log_iff)
  moreover have "log 2 x < of_int (j + 52) + 1"
    using hi x0 unfolding b [symmetric] by (simp add: log_less_iff add.commute add.assoc)
  ultimately have "\<lfloor>log 2 x\<rfloor> = j + 52" by (rule floor_unique)
  then have e: "\<lfloor>log 2 \<bar>x\<bar>\<rfloor> - 52 = j" using x0 by simp
  have "fl x = of_int (round_even (x / u)) * u"
    unfolding fl_def Let_def e u using x0 by simp
  then show ?thesis by (simp only: round_even_near [OF m])
qed

lemma fl_sqrt_eqI:
  assumes u: "u = 2 powr of_int j"
    and lo: "2 ^ 52 < m" and hi: "m < 2 ^ 53"
    and below: "((of_int m - 1 / 2) * u)\<^sup>2 < x"
    and above: "x < ((of_int m + 1 / 2) * u)\<^sup>2"
  shows "fl (sqrt x) = of_int m * u"
proof (rule fl_eqI [OF u])
  have u0: "0 < u" unfolding u by simp
  from lo have "2 ^ 52 + 1 \<le> m" by simp
  then have "(of_int (2 ^ 52 + 1) :: real) \<le> of_int m" by (simp only: of_int_le_iff)
  then have mi: "(2 ^ 52 :: real) + 1 \<le> of_int m" by simp
  then have m0: "(2 ^ 52 :: real) < of_int m" by linarith
  from hi have "m + 1 \<le> 2 ^ 53" by simp
  then have "(of_int (m + 1) :: real) \<le> of_int (2 ^ 53)" by (simp only: of_int_le_iff)
  then have mj: "of_int m + 1 \<le> (2 ^ 53 :: real)" by simp
  have a: "(of_int m - 1 / 2) * u < sqrt x" by (rule real_less_rsqrt [OF below])
  have "0 \<le> (of_int m + 1 / 2) * u" using u0 m0 by simp
  then have b: "sqrt x < (of_int m + 1 / 2) * u" by (rule real_less_lsqrt [OF _ above])
  have "2 ^ 52 * u \<le> (of_int m - 1 / 2) * u"
    using mi u0 by (intro mult_right_mono) simp_all
  with a show "2 ^ 52 * u \<le> sqrt x" by linarith
  have "(of_int m + 1 / 2) * u \<le> 2 ^ 53 * u"
    using mj u0 by (intro mult_right_mono) simp_all
  with b show "sqrt x < 2 ^ 53 * u" by linarith
  have "of_int m - 1 / 2 < sqrt x / u" using a u0 by (simp add: pos_less_divide_eq)
  moreover have "sqrt x / u < of_int m + 1 / 2" using b u0 by (simp add: pos_divide_less_eq)
  ultimately show "\<bar>sqrt x / u - of_int m\<bar> < 1 / 2" by linarith
qed

lemma dbl_er_plus: "fl (9 / 2 + 1) = 11 / 2"
  by (rule fl_eqI [where u = "1 / 2 ^ 50" and j = "- 50" and m = 6192449487634432, THEN trans])
    (simp_all add: powr_minus_divide)

lemma dbl_er_plus_half: "fl (11 / 2 / 2) = 11 / 4"
  by (rule fl_eqI [where u = "1 / 2 ^ 51" and j = "- 51" and m = 6192449487634432, THEN trans])
    (simp_all add: powr_minus_divide)

lemma dbl_er_minus: "fl (9 / 2 - 1) = 7 / 2"
  by (rule fl_eqI [where u = "1 / 2 ^ 51" and j = "- 51" and m = 7881299347898368, THEN trans])
    (simp_all add: powr_minus_divide)

lemma dbl_er_minus_half: "fl (7 / 2 / 2) = 7 / 4"
  by (rule fl_eqI [where u = "1 / 2 ^ 52" and j = "- 52" and m = 7881299347898368, THEN trans])
    (simp_all add: powr_minus_divide)

lemma dbl_12h: "fl (12 * (1 / 512)) = 3 / 128"
  by (rule fl_eqI [where u = "1 / 2 ^ 58" and j = "- 58" and m = 6755399441055744, THEN trans])
    (simp_all add: powr_minus_divide)

lemma dbl_12h_w: "fl (3 / 128 / (1 / 128)) = 3"
  by (rule fl_eqI [where u = "1 / 2 ^ 51" and j = "- 51" and m = 6755399441055744, THEN trans])
    (simp_all add: powr_minus_divide)

lemma dbl_base: "fl (1 + 3) = 4"
  by (rule fl_eqI [where u = "1 / 2 ^ 50" and j = "- 50" and m = 4503599627370496, THEN trans])
    (simp_all add: powr_minus_divide)

lemma dbl_half: "fl (1 / 2) = 1 / 2"
  by (rule fl_eqI [where u = "1 / 2 ^ 53" and j = "- 53" and m = 4503599627370496, THEN trans])
    (simp_all add: powr_minus_divide)

lemma dbl_product: "fl (7 / 4 * (1 / 2)) = 7 / 8"
  by (rule fl_eqI [where u = "1 / 2 ^ 53" and j = "- 53" and m = 7881299347898368, THEN trans])
    (simp_all add: powr_minus_divide)

lemma dbl_eff_er: "fl (11 / 4 + 7 / 8) = 29 / 8"
  by (rule fl_eqI [where u = "1 / 2 ^ 51" and j = "- 51" and m = 8162774324609024, THEN trans])
    (simp_all add: powr_minus_divide)

lemma dbl_sqrt: "fl (sqrt (29 / 8)) = 535912389401671 / 281474976710656"
  by (rule fl_sqrt_eqI [where u = "1 / 2 ^ 52" and j = "- 52" and m = 8574598230426736, THEN trans])
    (simp_all add: powr_minus_divide power2_eq_square)

lemma dbl_f_sqrt: "fl (5000000000 * (535912389401671 / 281474976710656)) = 4991073062658971 / 524288"
  by (rule fl_eqI [where u = "1 / 2 ^ 19" and j = "- 19" and m = 4991073062658971, THEN trans])
    (simp_all add: powr_minus_divide)

lemma dbl_lambda: "fl (299792458 / (4991073062658971 / 524288)) = 4538438408584089 / 144115188075855872"
  by (rule fl_eqI [where u = "1 / 2 ^ 57" and j = "- 57" and m = 4538438408584089, THEN trans])
    (simp_all add: powr_minus_divide)

lemma dbl_length: "fl (4538438408584089 / 144115188075855872 / 4) = 4538438408584089 / 576460752303423488"
  by (rule fl_eqI [where u = "1 / 2 ^ 59" and j = "- 59" and m = 4538438408584089, THEN trans])
    (simp_all add: powr_minus_divide)

lemma dbl_4_length: "fl (4 * (4538438408584089 / 576460752303423488)) = 4538438408584089 / 144115188075855872"
  by (rule fl_eqI [where u = "1 / 2 ^ 57" and j = "- 57" and m = 4538438408584089, THEN trans])
    (simp_all add: powr_minus_divide)

lemma dbl_denominator: "fl (4538438408584089 / 144115188075855872 * (535912389401671 / 281474976710656)) = 4320464646839313 / 72057594037927936"
  by (rule fl_eqI [where u = "1 / 2 ^ 57" and j = "- 57" and m = 8640929293678626, THEN trans])
    (simp_all add: powr_minus_divide)

lemma dbl_f_res: "fl (299792458 / (4320464646839313 / 72057594037927936)) = 5242879999999999 / 1048576"
  by (rule fl_eqI [where u = "1 / 2 ^ 20" and j = "- 20" and m = 5242879999999999, THEN trans])
    (simp_all add: powr_minus_divide)

lemma powr_4_half: "(4 :: real) powr (- 0.5) = 1 / 2"
proof -
  have "(4 :: real) powr (- 0.5) = 1 / sqrt 4" by (rule rsqrt_powr) simp
  also have "sqrt 4 = sqrt (2\<^sup>2)" by simp
  also have "\<dots> = 2" by (simp only: real_sqrt_abs abs_numeral)
  finally show ?thesis .
qed

text \<open>
  C10 as the specification states it fails in the program's arithmetic. On a substrate
  with \<open>er = 4.5\<close> and \<open>h = 2\<^sup>-\<^sup>9\<close> m, for the width \<open>w = 2\<^sup>-\<^sup>7\<close> m (all three are
  doubles, and \<open>1 + 12 h / w = 4\<close> makes the power exactly \<open>0.5\<close>), \<open>eff_er\<close> is 3.625
  and the doubles give \<open>f_res = 5e9 - 2\<^sup>-\<^sup>2\<^sup>0\<close>, which Python prints as
  \<open>4999999999.999999\<close>.
\<close>

theorem f_res_double_off_nominal:
  "f_res_double (ResonatorAnalysis_init (9 / 2) (1 / 512) 0.025) (1 / 128)
     = Inr (5000000000 - 1 / 1048576)"
proof -
  let ?self = "ResonatorAnalysis_init (9 / 2) (1 / 512) 0.025"
  have sel: "er ?self = 9 / 2" "h ?self = 1 / 512" "c ?self = 299792458"
    by (simp_all add: ResonatorAnalysis_init_def constants_c_def)
  have len: "calc_resonator_length_double ?self 5000000000 (1 / 128)
               = Inr (4538438408584089 / 576460752303423488, 29 / 8)"
    unfolding calc_resonator_length_double_def Let_def sel
    by (simp only: dbl_er_plus dbl_er_plus_half dbl_er_minus dbl_er_minus_half dbl_12h
        dbl_12h_w dbl_base powr_4_half dbl_half dbl_product dbl_eff_er dbl_sqrt dbl_f_sqrt
        dbl_lambda dbl_length) simp
  show ?thesis
    unfolding f_res_double_def len Let_def sel
    by (simp only: sum.case prod.case dbl_4_length dbl_sqrt dbl_denominator dbl_f_res) simp
qed

section \<open>The resonant frequency does not read the gap or the dimension\<close>

lemma calc_resonator_s_params_scalars:
  assumes "calc_resonator_s_params self d g w f_range = Inr (fs, S11, S21, f_res, len)"
  shows "len = c self / (5000000000 * sqrt ((er self + 1) / 2
                   + (er self - 1) / 2 * (1 + 12 * h self / w) powr (- 0.5))) / 4
         \<and> f_res = c self / (4 * len * sqrt ((er self + 1) / 2
                   + (er self - 1) / 2 * (1 + 12 * h self / w) powr (- 0.5)))"
proof -
  from assms obtain e where l: "calc_resonator_length self 5000000000 w = Inr (len, e)"
    and fr: "f_res = c self / (4 * len * sqrt e)"
    unfolding calc_resonator_s_params_def Let_def
    by (auto split: sum.splits if_splits prod.splits)
  from calc_resonator_length_value [OF l]
  have e: "e = (er self + 1) / 2 + (er self - 1) / 2 * (1 + 12 * h self / w) powr (- 0.5)"
    and len: "len = c self / (5000000000 * sqrt e) / 4"
    by simp_all
  from fr len show ?thesis unfolding e by simp
qed

text \<open>
  C10, as the code has it. For every gap \<open>g\<close> and dimension \<open>d\<close>,
  \<open>calc_resonator_s_params\<close> returns the same resonant frequency and the same length:
  the length is \<open>c / (5e9 * \<surd>eff_er) / 4\<close>, from the fixed 5 GHz nominal, and
  \<open>f_res = c / (4 * length * \<surd>eff_er)\<close>, and neither reads \<open>d\<close> or \<open>g\<close>. (That
  quotient is the 5 GHz nominal again only up to the rounding of its double operations.)
\<close>

theorem f_res_independent_of_d_and_g:
  "(calc_resonator_s_params self d g w f_range = Inr (fs, S11, S21, f_res, len) \<longrightarrow>
      len = c self / (5000000000 * sqrt ((er self + 1) / 2
                 + (er self - 1) / 2 * (1 + 12 * h self / w) powr (- 0.5))) / 4
      \<and> f_res = c self / (4 * len * sqrt ((er self + 1) / 2
                 + (er self - 1) / 2 * (1 + 12 * h self / w) powr (- 0.5))))
   \<and> (calc_resonator_s_params self d g w f_range = Inr (fs, S11, S21, f_res, len)
       \<and> calc_resonator_s_params self d' g' w f_range' = Inr (fs', S11', S21', f_res', len')
      \<longrightarrow> f_res' = f_res \<and> len' = len)"
proof -
  have "f_res' = f_res \<and> len' = len"
    if "calc_resonator_s_params self d g w f_range = Inr (fs, S11, S21, f_res, len)"
      and "calc_resonator_s_params self d' g' w f_range' = Inr (fs', S11', S21', f_res', len')"
    using calc_resonator_s_params_scalars [OF that(1)]
      calc_resonator_s_params_scalars [OF that(2)]
    by simp
  with calc_resonator_s_params_scalars [of self d g w f_range fs S11 S21 f_res len]
  show ?thesis by blast
qed

theorem f_res_independent_of_d_and_g_witness:
  "\<exists>fs S11 S21 f_res len fs' S11' S21' f_res' len'.
     calc_resonator_s_params (ResonatorAnalysis_init 4.4 0.0016 0.025) 0.006 0.00005 0.001
         (4000000000, 6000000000, 3) = Inr (fs, S11, S21, f_res, len)
     \<and> calc_resonator_s_params (ResonatorAnalysis_init 4.4 0.0016 0.025) 0.008 0.0001 0.001
         (1000000000, 10000000000, 1000) = Inr (fs', S11', S21', f_res', len')
     \<and> f_res' = f_res \<and> len' = len
     \<and> len = c (ResonatorAnalysis_init 4.4 0.0016 0.025)
              / (5000000000 * sqrt ((er (ResonatorAnalysis_init 4.4 0.0016 0.025) + 1) / 2
                 + (er (ResonatorAnalysis_init 4.4 0.0016 0.025) - 1) / 2
                   * (1 + 12 * h (ResonatorAnalysis_init 4.4 0.0016 0.025) / 0.001)
                       powr (- 0.5))) / 4"
proof -
  let ?self = "ResonatorAnalysis_init 4.4 0.0016 0.025"
  obtain fs' where l: "linspace (1000000000, 10000000000, 1000) = Inr fs'"
    using linspace_returns [of 1000 1000000000 10000000000] by auto
  obtain S11 S21 f_res len where a:
      "calc_resonator_s_params ?self 0.006 0.00005 0.001 (4000000000, 6000000000, 3)
         = Inr ([4000000000, 5000000000, 6000000000], S11, S21, f_res, len)"
    using calc_resonator_s_params_value [OF _ _ _ linspace_3, of "0.001" "0.0016" "4.4"
        "0.025" "0.006" "0.00005"]
    by auto
  obtain S11' S21' f_res' len' where b:
      "calc_resonator_s_params ?self 0.008 0.0001 0.001 (1000000000, 10000000000, 1000)
         = Inr (fs', S11', S21', f_res', len')"
    using calc_resonator_s_params_value [OF _ _ _ l, of "0.001" "0.0016" "4.4"
        "0.025" "0.008" "0.0001"]
    by auto
  from f_res_independent_of_d_and_g [of ?self "0.006" "0.00005" "0.001"
      "(4000000000, 6000000000, 3)" "[4000000000, 5000000000, 6000000000]" S11 S21 f_res len
      "0.008" "0.0001" "(1000000000, 10000000000, 1000)" fs' S11' S21' f_res' len'] a b
  show ?thesis by blast
qed

end
